theory Spec2Isabelle
  imports Complex_Main "HOL-Library.Sublist" "HOL-Library.AList"
begin

section \<open>The ledger of \<^verbatim>\<open>expense.py\<close>: data model\<close>

text \<open>
  The embedding follows the class \<^verbatim>\<open>ExpenseTracker\<close> of \<^verbatim>\<open>src/expense.py\<close>
  (lines 16 to 231). Conventions:
  \<^item> an amount is a Python number; it is modelled as an exact \<open>real\<close>, so the rounding of
    binary floating point (and NaN) is outside the model;
  \<^item> a string is a list of characters with a code point below 256 (ASCII and Latin-1);
    text with other characters is outside the model. On this range \<^verbatim>\<open>\d\<close> is the ten
    ASCII digits and \<^verbatim>\<open>str.lower()\<close> keeps the length of the text;
  \<^item> the field \<^verbatim>\<open>id\<close> of a transaction is \<open>id_t\<close> here, \<open>id\<close> being the identity
    function of HOL; the attribute \<^verbatim>\<open>categories\<close>, a constant table of suggestions that
    no method below reads, is left out;
  \<^item> a method is a function from the object's state to a result and the state after
    the call; an exception is the result \<open>Inl e\<close>;
  \<^item> the clock read by \<^verbatim>\<open>datetime.datetime.now()\<close> is an argument of the method;
  \<^item> the file named by \<^verbatim>\<open>self.data_file\<close> is a field of the state. The text layer of
    \<^verbatim>\<open>json.dump\<close> and \<^verbatim>\<open>json.load\<close> is abstracted: the file holds either the value
    \<^verbatim>\<open>json.load\<close> would return or text that does not parse. Storage is taken to be
    readable and writable.
\<close>

datatype TransactionType = INCOME | EXPENSE

record Transaction =
  id_t :: int
  type :: TransactionType
  amount :: real
  category :: string
  description :: string
  date :: string
  tags :: "string list"

datatype error =
    ValueError
  | KeyError string
  | TypeError
  | AttributeError
  | JSONDecodeError
  | Unmodelled

text \<open>The values \<^verbatim>\<open>json.load\<close> returns: None, bool, int, float, str, list, dict.\<close>

datatype json =
    JNull
  | JBool bool
  | JInt int
  | JFloat real
  | JStr string
  | JArr "json list"
  | JObj "(string \<times> json) list"

datatype file_content = Unparseable | Document json

text \<open>
  \<open>budget_limits\<close> is a Python dict: an association list in insertion order.
  \<open>data_file\<close> is the content of the backing file, \<open>None\<close> when it does not exist.
\<close>

record ExpenseTracker =
  transactions :: "Transaction list"
  budget_limits :: "(string \<times> real) list"
  data_file :: "file_content option"

section \<open>Dates: \<^verbatim>\<open>strptime(s, "%Y-%m-%d")\<close> and \<^verbatim>\<open>strftime\<close>\<close>

record ymd =
  year :: nat
  month :: nat
  day :: nat

text \<open>
  The value of a decimal digit. \<^verbatim>\<open>\d\<close> matches the decimal digits of Unicode; among the
  characters below 256 these are the ten ASCII digits.
\<close>

definition digit_of :: "char \<Rightarrow> nat option" where
  "digit_of c = map_of (zip ''0123456789'' [0, 1, 2, 3, 4, 5, 6, 7, 8, 9]) c"

text \<open>
  The directive \<^verbatim>\<open>%Y\<close> is the regular expression \<^verbatim>\<open>\d\d\d\d\<close>: four digits, and the
  rest of the text.
\<close>

fun parse_Y :: "string \<Rightarrow> (nat \<times> string) option" where
  "parse_Y (a # b # c # d # rest) =
     (case (digit_of a, digit_of b, digit_of c, digit_of d) of
        (Some w, Some x, Some y, Some z) \<Rightarrow> Some (1000 * w + 100 * x + 10 * y + z, rest)
      | _ \<Rightarrow> None)"
| "parse_Y _ = None"

text \<open>
  \<^verbatim>\<open>%m\<close> is \<^verbatim>\<open>1[0-2]|0[1-9]|[1-9]\<close> and must be followed by the \<^verbatim>\<open>-\<close> of the format:
  the alternatives are tried in this order, and a two-character alternative that is not
  followed by \<^verbatim>\<open>-\<close> is given up for the next one.
\<close>

definition parse_m :: "string \<Rightarrow> (nat \<times> string) option" where
  "parse_m s =
     (case s of
        a # b # c # rest \<Rightarrow>
          (case (digit_of a, digit_of b) of
             (Some x, Some y) \<Rightarrow>
               if c = CHR ''-'' \<and> ((x = 1 \<and> y \<le> 2) \<or> (x = 0 \<and> 1 \<le> y)) then Some (10 * x + y, rest)
               else None
           | (Some x, None) \<Rightarrow>
               if b = CHR ''-'' \<and> 1 \<le> x then Some (x, c # rest) else None
           | _ \<Rightarrow> None)
      | [a, b] \<Rightarrow>
          (case digit_of a of
             Some x \<Rightarrow> if b = CHR ''-'' \<and> 1 \<le> x then Some (x, []) else None
           | None \<Rightarrow> None)
      | _ \<Rightarrow> None)"

text \<open>
  \<^verbatim>\<open>%d\<close> is \<^verbatim>\<open>3[0-1]|[1-2]\d|0[1-9]|[1-9]| [1-9]\<close> and ends the format: the text must
  end where the match does (\<^verbatim>\<open>unconverted data remains\<close> otherwise).
\<close>

definition parse_d :: "string \<Rightarrow> nat option" where
  "parse_d s =
     (case s of
        [a] \<Rightarrow> (case digit_of a of Some x \<Rightarrow> if 1 \<le> x then Some x else None | None \<Rightarrow> None)
      | [a, b] \<Rightarrow>
          (case (digit_of a, digit_of b) of
             (Some x, Some y) \<Rightarrow>
               if (x = 3 \<and> y \<le> 1) \<or> x = 1 \<or> x = 2 \<or> (x = 0 \<and> 1 \<le> y) then Some (10 * x + y)
               else None
           | (None, Some y) \<Rightarrow> if a = CHR '' '' \<and> 1 \<le> y then Some y else None
           | _ \<Rightarrow> None)
      | _ \<Rightarrow> None)"

definition is_leap :: "nat \<Rightarrow> bool" where
  "is_leap y \<longleftrightarrow> y mod 4 = 0 \<and> (y mod 100 \<noteq> 0 \<or> y mod 400 = 0)"

definition days_in_month :: "nat \<Rightarrow> nat \<Rightarrow> nat" where
  "days_in_month y m =
     (if m = 2 then (if is_leap y then 29 else 28)
      else if m = 4 \<or> m = 6 \<or> m = 9 \<or> m = 11 then 30 else 31)"

text \<open>
  \<^verbatim>\<open>datetime.datetime.strptime(s, "%Y-%m-%d")\<close>: the match, then the construction of the
  date, which raises \<^verbatim>\<open>ValueError\<close> for the year 0 and for a day the month does not have.
\<close>

definition strptime :: "string \<Rightarrow> error + ymd" where
  "strptime s =
     (case parse_Y s of
        None \<Rightarrow> Inl ValueError
      | Some (y, s1) \<Rightarrow>
          (case s1 of
             [] \<Rightarrow> Inl ValueError
           | c # s2 \<Rightarrow>
               if c \<noteq> CHR ''-'' then Inl ValueError
               else
                 (case parse_m s2 of
                    None \<Rightarrow> Inl ValueError
                  | Some (m, s3) \<Rightarrow>
                      (case parse_d s3 of
                         None \<Rightarrow> Inl ValueError
                       | Some d \<Rightarrow>
                           if 1 \<le> y \<and> d \<le> days_in_month y m
                           then Inr \<lparr>year = y, month = m, day = d\<rparr>
                           else Inl ValueError))))"

definition digit_char :: "nat \<Rightarrow> char" where
  "digit_char n = ''0123456789'' ! (n mod 10)"

definition pad2 :: "nat \<Rightarrow> string" where
  "pad2 n = [digit_char (n div 10), digit_char n]"

definition pad4 :: "nat \<Rightarrow> string" where
  "pad4 n = [digit_char (n div 1000), digit_char (n div 100), digit_char (n div 10), digit_char n]"

text \<open>
  \<^verbatim>\<open>%Y\<close> is printed by the C library. CPython 3.11 on glibc prints the year as a decimal
  number without padding, so the year 999 is \<^verbatim>\<open>999\<close> and not \<^verbatim>\<open>0999\<close>; this is what the
  model does. From the year 1000 on the text is the four digits on every platform. The
  years of a date are 1 to 9999.
\<close>

definition strftime_Y :: "nat \<Rightarrow> string" where
  "strftime_Y y =
     (if y < 10 then [digit_char y]
      else if y < 100 then [digit_char (y div 10), digit_char y]
      else if y < 1000 then [digit_char (y div 100), digit_char (y div 10), digit_char y]
      else pad4 y)"

text \<open>\<^verbatim>\<open>strftime("%Y-%m")\<close> and \<^verbatim>\<open>strftime("%Y-%m-%d")\<close>.\<close>

definition strftime_Ym :: "ymd \<Rightarrow> string" where
  "strftime_Ym d = strftime_Y (year d) @ ''-'' @ pad2 (month d)"

definition strftime_Ymd :: "ymd \<Rightarrow> string" where
  "strftime_Ymd d = strftime_Y (year d) @ ''-'' @ pad2 (month d) @ ''-'' @ pad2 (day d)"

section \<open>Category spending\<close>

text \<open>\<^verbatim>\<open>d.get(k, default)\<close> on a dict.\<close>

definition dict_get :: "('k \<rightharpoonup> 'v) \<Rightarrow> 'k \<Rightarrow> 'v \<Rightarrow> 'v" where
  "dict_get d k dflt = (case d k of None \<Rightarrow> dflt | Some v \<Rightarrow> v)"

text \<open>
  The loop of \<^verbatim>\<open>get_category_spending\<close> (lines 120 to 125), with the dict
  \<^verbatim>\<open>spending\<close> as accumulator. The date of an expense is parsed before the month is
  looked at, also when no month is given.
\<close>

fun spending_loop ::
  "string option \<Rightarrow> Transaction list \<Rightarrow> (string \<rightharpoonup> real) \<Rightarrow> error + (string \<rightharpoonup> real)" where
  "spending_loop month_arg [] spending = Inr spending"
| "spending_loop month_arg (t # ts) spending =
     (if type t = EXPENSE then
        (case strptime (date t) of
           Inl e \<Rightarrow> Inl e
         | Inr trans_date \<Rightarrow>
             if month_arg = None \<or> Some (strftime_Ym trans_date) = month_arg
             then spending_loop month_arg ts
                    (spending(category t \<mapsto> dict_get spending (category t) 0 + amount t))
             else spending_loop month_arg ts spending)
      else spending_loop month_arg ts spending)"

definition get_category_spending ::
  "string option \<Rightarrow> ExpenseTracker \<Rightarrow> (error + (string \<rightharpoonup> real)) \<times> ExpenseTracker" where
  "get_category_spending month_arg self = (spending_loop month_arg (transactions self) Map.empty, self)"


section \<open>Budget alerts\<close>

text \<open>
  An alert is the dict with the keys \<^verbatim>\<open>category\<close>, \<^verbatim>\<open>limit\<close>, \<^verbatim>\<open>spent\<close> and
  \<^verbatim>\<open>exceeded_by\<close> (lines 137 to 142); the fields carry the prefix \<open>alert\<close> to keep
  them apart from the fields of a transaction.
\<close>

record alert =
  alert_category :: string
  alert_limit :: real
  alert_spent :: real
  alert_exceeded_by :: real

text \<open>The loop over \<^verbatim>\<open>self.budget_limits.items()\<close> (lines 134 to 142).\<close>

fun alerts_loop :: "(string \<times> real) list \<Rightarrow> (string \<rightharpoonup> real) \<Rightarrow> alert list \<Rightarrow> alert list" where
  "alerts_loop [] category_spending alerts = alerts"
| "alerts_loop ((cat, limit) # rest) category_spending alerts =
     (let spent = dict_get category_spending cat 0 in
      if spent > limit
      then alerts_loop rest category_spending
             (alerts @ [\<lparr>alert_category = cat, alert_limit = limit, alert_spent = spent,
                         alert_exceeded_by = spent - limit\<rparr>])
      else alerts_loop rest category_spending alerts)"

definition check_budget_alerts ::
  "string option \<Rightarrow> ExpenseTracker \<Rightarrow> (error + alert list) \<times> ExpenseTracker" where
  "check_budget_alerts month_arg self =
     (case get_category_spending month_arg self of
        (Inl e, self1) \<Rightarrow> (Inl e, self1)
      | (Inr category_spending, self1) \<Rightarrow>
          (Inr (alerts_loop (budget_limits self1) category_spending []), self1))"

section \<open>Profit and loss\<close>

record profit_loss =
  total_income :: real
  total_expenses :: real
  net_profit :: real
  profit_margin :: real
  is_profitable :: bool

text \<open>
  The loop of \<^verbatim>\<open>calculate_profit_loss\<close> (lines 151 to 158): here the date of every
  transaction is parsed, and what is not income counts as an expense.
\<close>

fun profit_loop ::
  "string option \<Rightarrow> Transaction list \<Rightarrow> real \<times> real \<Rightarrow> error + real \<times> real" where
  "profit_loop month_arg [] (income_acc, expenses_acc) = Inr (income_acc, expenses_acc)"
| "profit_loop month_arg (t # ts) (income_acc, expenses_acc) =
     (case strptime (date t) of
        Inl e \<Rightarrow> Inl e
      | Inr trans_date \<Rightarrow>
          if month_arg = None \<or> Some (strftime_Ym trans_date) = month_arg
          then (if type t = INCOME
                then profit_loop month_arg ts (income_acc + amount t, expenses_acc)
                else profit_loop month_arg ts (income_acc, expenses_acc + amount t))
          else profit_loop month_arg ts (income_acc, expenses_acc))"

definition calculate_profit_loss ::
  "string option \<Rightarrow> ExpenseTracker \<Rightarrow> (error + profit_loss) \<times> ExpenseTracker" where
  "calculate_profit_loss month_arg self =
     (case profit_loop month_arg (transactions self) (0, 0) of
        Inl e \<Rightarrow> (Inl e, self)
      | Inr (income_sum, expenses_sum) \<Rightarrow>
          (let net = income_sum - expenses_sum;
               margin = (if income_sum > 0 then net / income_sum * 100 else 0)
           in (Inr \<lparr>total_income = income_sum, total_expenses = expenses_sum,
                     net_profit = net, profit_margin = margin, is_profitable = (net > 0)\<rparr>,
               self)))"

section \<open>Monthly summary\<close>

record month_totals =
  income :: real
  expenses :: real

text \<open>
  The loop of \<^verbatim>\<open>get_monthly_summary\<close> (lines 175 to 184); \<^verbatim>\<open>transaction.date[:7]\<close> is
  \<open>take 7\<close>, and a month not yet in the dict starts at zero income and zero expenses.
\<close>

fun summary_loop :: "Transaction list \<Rightarrow> (string \<rightharpoonup> month_totals) \<Rightarrow> (string \<rightharpoonup> month_totals)" where
  "summary_loop [] monthly_data = monthly_data"
| "summary_loop (t # ts) monthly_data =
     (let mo = take 7 (date t);
          entry = dict_get monthly_data mo \<lparr>income = 0, expenses = 0\<rparr>
      in if type t = INCOME
         then summary_loop ts (monthly_data(mo \<mapsto> entry\<lparr>income := income entry + amount t\<rparr>))
         else summary_loop ts (monthly_data(mo \<mapsto> entry\<lparr>expenses := expenses entry + amount t\<rparr>)))"

definition get_monthly_summary :: "ExpenseTracker \<Rightarrow> (string \<rightharpoonup> month_totals) \<times> ExpenseTracker" where
  "get_monthly_summary self = (summary_loop (transactions self) Map.empty, self)"

section \<open>Search\<close>

text \<open>
  \<^verbatim>\<open>str.lower()\<close> on the characters below 256: the capital letters A to Z and the
  capital letters of Latin-1 (code points 192 to 222, the multiplication sign 215 apart) are
  replaced by the letter 32 code points later, every other character is kept.
  \<^verbatim>\<open>a in b\<close> on strings is \<open>sublist a b\<close>.
\<close>

definition is_upper :: "char \<Rightarrow> bool" where
  "is_upper c \<longleftrightarrow>
     (let n = (of_char c :: nat)
      in (65 \<le> n \<and> n \<le> 90) \<or> (192 \<le> n \<and> n \<le> 222 \<and> n \<noteq> 215))"

definition lower_char :: "char \<Rightarrow> char" where
  "lower_char c = (if is_upper c then char_of (of_char c + 32 :: nat) else c)"

definition lower :: "string \<Rightarrow> string" where
  "lower s = map lower_char s"

text \<open>The loop of \<^verbatim>\<open>search_transactions\<close> (lines 225 to 229), an \<^verbatim>\<open>if\<close> and an \<^verbatim>\<open>elif\<close>.\<close>

fun search_loop :: "string \<Rightarrow> string \<Rightarrow> Transaction list \<Rightarrow> Transaction list \<Rightarrow> Transaction list" where
  "search_loop query search_type [] results = results"
| "search_loop query search_type (t # ts) results =
     (if search_type \<in> set [''all'', ''description'']
         \<and> sublist (lower query) (lower (description t))
      then search_loop query search_type ts (results @ [t])
      else if search_type \<in> set [''all'', ''tags'']
         \<and> list_ex (\<lambda>tag. sublist (lower query) (lower tag)) (tags t)
      then search_loop query search_type ts (results @ [t])
      else search_loop query search_type ts results)"

definition search_transactions ::
  "string \<Rightarrow> string \<Rightarrow> ExpenseTracker \<Rightarrow> Transaction list \<times> ExpenseTracker" where
  "search_transactions query search_type self =
     (search_loop query search_type (transactions self) [], self)"


section \<open>Persistence\<close>

fun type_value :: "TransactionType \<Rightarrow> string" where
  "type_value INCOME = ''income''"
| "type_value EXPENSE = ''expense''"

text \<open>
  The dict \<^verbatim>\<open>save_data\<close> builds for one transaction (lines 70 to 78), and the whole
  document (lines 68 to 81), which replaces the content of the file.
\<close>

definition item_of :: "Transaction \<Rightarrow> json" where
  "item_of t =
     JObj [(''id'', JInt (id_t t)),
           (''type'', JStr (type_value (type t))),
           (''amount'', JFloat (amount t)),
           (''category'', JStr (category t)),
           (''description'', JStr (description t)),
           (''date'', JStr (date t)),
           (''tags'', JArr (map JStr (tags t)))]"

definition limits_json :: "(string \<times> real) list \<Rightarrow> json" where
  "limits_json limits = JObj (map (\<lambda>(k, v). (k, JFloat v)) limits)"

definition save_data :: "ExpenseTracker \<Rightarrow> ExpenseTracker" where
  "save_data self =
     self\<lparr>data_file :=
       Some (Document (JObj [(''transactions'', JArr (map item_of (transactions self))),
                             (''budget_limits'', limits_json (budget_limits self))]))\<rparr>"

text \<open>
  \<^verbatim>\<open>TransactionType(v)\<close>: the member whose value is \<open>v\<close>, \<^verbatim>\<open>ValueError\<close> when there is
  none.
\<close>

definition TransactionType_of :: "json \<Rightarrow> error + TransactionType" where
  "TransactionType_of v =
     (if v = JStr ''income'' then Inr INCOME
      else if v = JStr ''expense'' then Inr EXPENSE
      else Inl ValueError)"

text \<open>\<^verbatim>\<open>item[k]\<close> on a dict: \<^verbatim>\<open>KeyError\<close> for a key it does not have.\<close>

definition subscript :: "(string \<times> json) list \<Rightarrow> string \<Rightarrow> error + json" where
  "subscript kvs k = (case map_of kvs k of None \<Rightarrow> Inl (KeyError k) | Some v \<Rightarrow> Inr v)"

text \<open>
  Python stores the value of a key whatever its JSON type is. The typed record holds a
  value of the annotated type only, so each field has a reading of the JSON values of that
  type; \<open>None\<close> is a value the record cannot hold. \<^verbatim>\<open>__post_init__\<close> turns the tags
  \<^verbatim>\<open>None\<close> into the empty list.
\<close>

fun int_of_json :: "json \<Rightarrow> int option" where
  "int_of_json (JInt i) = Some i"
| "int_of_json _ = None"

fun number_of_json :: "json \<Rightarrow> real option" where
  "number_of_json (JInt i) = Some (of_int i)"
| "number_of_json (JFloat r) = Some r"
| "number_of_json _ = None"

fun str_of_json :: "json \<Rightarrow> string option" where
  "str_of_json (JStr s) = Some s"
| "str_of_json _ = None"

fun strs_of_jsons :: "json list \<Rightarrow> string list option" where
  "strs_of_jsons [] = Some []"
| "strs_of_jsons (v # vs) =
     (case (str_of_json v, strs_of_jsons vs) of
        (Some s, Some ss) \<Rightarrow> Some (s # ss)
      | _ \<Rightarrow> None)"

fun tags_of_json :: "json \<Rightarrow> string list option" where
  "tags_of_json JNull = Some []"
| "tags_of_json (JArr vs) = strs_of_jsons vs"
| "tags_of_json _ = None"

text \<open>
  The call \<^verbatim>\<open>Transaction(id=item['id'], ...)\<close> of \<^verbatim>\<open>load_data\<close> (lines 51 to 59) for
  one item. The arguments are evaluated in the order written, so the first missing key
  or the unknown type raises. An item that is no dict cannot be subscripted with a
  string: \<^verbatim>\<open>TypeError\<close>. The result \<open>Unmodelled\<close> is no exception of the program: it marks
  an item Python accepts with a value the typed record cannot hold.
\<close>

definition transaction_of :: "json \<Rightarrow> error + Transaction" where
  "transaction_of item =
     (case item of
        JObj kvs \<Rightarrow>
          (case subscript kvs ''id'' of Inl e \<Rightarrow> Inl e | Inr id_v \<Rightarrow>
          (case subscript kvs ''type'' of Inl e \<Rightarrow> Inl e | Inr type_v \<Rightarrow>
          (case TransactionType_of type_v of Inl e \<Rightarrow> Inl e | Inr ty \<Rightarrow>
          (case subscript kvs ''amount'' of Inl e \<Rightarrow> Inl e | Inr amount_v \<Rightarrow>
          (case subscript kvs ''category'' of Inl e \<Rightarrow> Inl e | Inr category_v \<Rightarrow>
          (case subscript kvs ''description'' of Inl e \<Rightarrow> Inl e | Inr description_v \<Rightarrow>
          (case subscript kvs ''date'' of Inl e \<Rightarrow> Inl e | Inr date_v \<Rightarrow>
          (case (int_of_json id_v, number_of_json amount_v, str_of_json category_v,
                 str_of_json description_v, str_of_json date_v,
                 tags_of_json (dict_get (map_of kvs) ''tags'' (JArr []))) of
             (Some i, Some a, Some c, Some d, Some dt, Some tg) \<Rightarrow>
               Inr \<lparr>id_t = i, type = ty, amount = a, category = c, description = d,
                    date = dt, tags = tg\<rparr>
           | _ \<Rightarrow> Inl Unmodelled))))))))
      | _ \<Rightarrow> Inl TypeError)"

text \<open>
  The list comprehension over the items. Python goes on after an item the record cannot
  hold, so an exception raised by a later item is still the result.
\<close>

fun transactions_of :: "json list \<Rightarrow> error + Transaction list" where
  "transactions_of [] = Inr []"
| "transactions_of (item # rest) =
     (case transaction_of item of
        Inl e \<Rightarrow>
          (if e = Unmodelled
           then (case transactions_of rest of Inl e' \<Rightarrow> Inl e' | Inr ts \<Rightarrow> Inl Unmodelled)
           else Inl e)
      | Inr t \<Rightarrow>
          (case transactions_of rest of Inl e' \<Rightarrow> Inl e' | Inr ts \<Rightarrow> Inr (t # ts)))"

text \<open>
  What \<^verbatim>\<open>for item in v\<close> iterates over: the elements of a list, the keys of a dict, the
  characters of a string; any other value is not iterable.
\<close>

fun iterate :: "json \<Rightarrow> error + json list" where
  "iterate (JArr vs) = Inr vs"
| "iterate (JObj kvs) = Inr (map (\<lambda>(k, v). JStr k) kvs)"
| "iterate (JStr s) = Inr (map (\<lambda>c. JStr [c]) s)"
| "iterate _ = Inl TypeError"

fun limits_of_items :: "(string \<times> json) list \<Rightarrow> (string \<times> real) list option" where
  "limits_of_items [] = Some []"
| "limits_of_items ((k, v) # kvs) =
     (case (number_of_json v, limits_of_items kvs) of
        (Some r, Some rest) \<Rightarrow> Some ((k, r) # rest)
      | _ \<Rightarrow> None)"

fun limits_of_json :: "json \<Rightarrow> (string \<times> real) list option" where
  "limits_of_json (JObj kvs) = limits_of_items kvs"
| "limits_of_json _ = None"

text \<open>
  \<^verbatim>\<open>load_data\<close> (lines 45 to 64). \<^verbatim>\<open>FileNotFoundError\<close> is caught and leaves empty
  collections; every other exception leaves the method before either attribute is
  assigned. A document that is no dict has no \<^verbatim>\<open>get\<close>: \<^verbatim>\<open>AttributeError\<close>.
\<close>

definition load_data :: "ExpenseTracker \<Rightarrow> (error + unit) \<times> ExpenseTracker" where
  "load_data self =
     (case data_file self of
        None \<Rightarrow> (Inr (), self\<lparr>transactions := [], budget_limits := []\<rparr>)
      | Some Unparseable \<Rightarrow> (Inl JSONDecodeError, self)
      | Some (Document data) \<Rightarrow>
          (case data of
             JObj kvs \<Rightarrow>
               (case iterate (dict_get (map_of kvs) ''transactions'' (JArr [])) of
                  Inl e \<Rightarrow> (Inl e, self)
                | Inr items \<Rightarrow>
                    (case transactions_of items of
                       Inl e \<Rightarrow> (Inl e, self)
                     | Inr ts \<Rightarrow>
                         (case limits_of_json (dict_get (map_of kvs) ''budget_limits'' (JObj [])) of
                            None \<Rightarrow> (Inl Unmodelled, self)
                          | Some limits \<Rightarrow>
                              (Inr (), self\<lparr>transactions := ts, budget_limits := limits\<rparr>))))
           | _ \<Rightarrow> (Inl AttributeError, self)))"

text \<open>
  \<^verbatim>\<open>__init__\<close> (lines 35 to 43): empty collections, then \<^verbatim>\<open>load_data\<close> on the file; the
  argument is the content of the file. This is how a ledger comes from a file.
\<close>

definition init :: "file_content option \<Rightarrow> (error + unit) \<times> ExpenseTracker" where
  "init f = load_data \<lparr>transactions = [], budget_limits = [], data_file = f\<rparr>"

section \<open>Commands\<close>

text \<open>\<^verbatim>\<open>get_next_id\<close> (lines 85 to 89); \<^verbatim>\<open>max\<close> runs over the ids from the first on.\<close>

definition get_next_id :: "ExpenseTracker \<Rightarrow> int" where
  "get_next_id self =
     (case transactions self of
        [] \<Rightarrow> 1
      | t # ts \<Rightarrow> fold max (map id_t ts) (id_t t) + 1)"

text \<open>
  \<^verbatim>\<open>add_transaction\<close> (lines 91 to 109); \<open>now\<close> is the day the clock shows. The result
  is the new transaction and the state after the call.
\<close>

definition add_transaction ::
  "TransactionType \<Rightarrow> real \<Rightarrow> string \<Rightarrow> string \<Rightarrow> string list option \<Rightarrow> ymd
     \<Rightarrow> ExpenseTracker \<Rightarrow> Transaction \<times> ExpenseTracker" where
  "add_transaction ty amt cat descr tags_arg now self =
     (let tags1 = (case tags_arg of None \<Rightarrow> [] | Some tg \<Rightarrow> tg);
          transaction = \<lparr>id_t = get_next_id self, type = ty, amount = amt, category = cat,
                         description = descr, date = strftime_Ymd now, tags = tags1\<rparr>;
          self1 = self\<lparr>transactions := transactions self @ [transaction]\<rparr>
      in (transaction, save_data self1))"

text \<open>
  \<^verbatim>\<open>set_budget_limit\<close> (lines 111 to 114): assignment to a key of a dict keeps the place
  of a key that is there and puts a new key last.
\<close>

definition set_budget_limit :: "string \<Rightarrow> real \<Rightarrow> ExpenseTracker \<Rightarrow> ExpenseTracker" where
  "set_budget_limit cat limit self =
     save_data (self\<lparr>budget_limits := AList.update cat limit (budget_limits self)\<rparr>)"

text \<open>\<^verbatim>\<open>delete_transaction\<close> (lines 216 to 219).\<close>

definition delete_transaction :: "int \<Rightarrow> ExpenseTracker \<Rightarrow> ExpenseTracker" where
  "delete_transaction transaction_id self =
     save_data (self\<lparr>transactions := filter (\<lambda>t. id_t t \<noteq> transaction_id) (transactions self)\<rparr>)"


text \<open>
  A sequence of \<^verbatim>\<open>add_transaction\<close> calls, each with its arguments and the day of the
  call; the result lists the transactions the calls returned, in order.
\<close>

type_synonym add_call = "TransactionType \<times> real \<times> string \<times> string \<times> string list option \<times> ymd"

fun add_all :: "add_call list \<Rightarrow> ExpenseTracker \<Rightarrow> Transaction list \<times> ExpenseTracker" where
  "add_all [] self = ([], self)"
| "add_all ((ty, amt, cat, descr, tags_arg, now) # calls) self =
     (case add_transaction ty amt cat descr tags_arg now self of
        (t, self1) \<Rightarrow> (case add_all calls self1 of (ts, self2) \<Rightarrow> (t # ts, self2)))"

section \<open>Notions used by the statements\<close>

text \<open>
  The date of a well dated transaction is a calendar day written as year, month and day,
  the form \<^verbatim>\<open>add_transaction\<close> writes.
\<close>

definition well_dated :: "Transaction \<Rightarrow> bool" where
  "well_dated t = (case strptime (date t) of Inl e \<Rightarrow> False | Inr d \<Rightarrow> True)"

text \<open>
  A day the clock can show: a calendar day of a year with four digits.
\<close>

definition clock_day :: "ymd \<Rightarrow> bool" where
  "clock_day d \<longleftrightarrow>
     1000 \<le> year d \<and> year d \<le> 9999 \<and> 1 \<le> month d \<and> month d \<le> 12
     \<and> 1 \<le> day d \<and> day d \<le> days_in_month (year d) (month d)"

text \<open>
  A transaction is in range when no month is given, or when the year and month of its date,
  written as four digits, a hyphen and two digits, are the month given.
\<close>

definition in_range :: "string option \<Rightarrow> Transaction \<Rightarrow> bool" where
  "in_range month_arg t =
     (case month_arg of
        None \<Rightarrow> True
      | Some m \<Rightarrow> (case strptime (date t) of Inl e \<Rightarrow> False | Inr d \<Rightarrow> strftime_Ym d = m))"

text \<open>The expenses of one category that are in range.\<close>

definition counts_for :: "string option \<Rightarrow> string \<Rightarrow> Transaction \<Rightarrow> bool" where
  "counts_for month_arg c t \<longleftrightarrow> type t = EXPENSE \<and> category t = c \<and> in_range month_arg t"

text \<open>The transactions of a month of the summary: the date starts with the month.\<close>

definition in_month :: "string \<Rightarrow> Transaction \<Rightarrow> bool" where
  "in_month mo t \<longleftrightarrow> take 7 (date t) = mo"

text \<open>
  Containment of a query in a text case-insensitively: some part of the text has the
  letters of the query, each either the same character or the capital or small form of the
  same letter. The capital letters are those of the characters below 256, and the small
  form of a capital letter is 32 code points later.
\<close>

definition capital_of :: "char \<Rightarrow> char \<Rightarrow> bool" where
  "capital_of u l \<longleftrightarrow>
     (let n = (of_char u :: nat)
      in ((65 \<le> n \<and> n \<le> 90) \<or> (192 \<le> n \<and> n \<le> 222 \<and> n \<noteq> 215))
         \<and> (of_char l :: nat) = n + 32)"

definition same_letter :: "char \<Rightarrow> char \<Rightarrow> bool" where
  "same_letter c d \<longleftrightarrow> c = d \<or> capital_of c d \<or> capital_of d c"

definition equal_ignoring_case :: "string \<Rightarrow> string \<Rightarrow> bool" where
  "equal_ignoring_case a b \<longleftrightarrow> list_all2 same_letter a b"

definition contains_ignoring_case :: "string \<Rightarrow> string \<Rightarrow> bool" where
  "contains_ignoring_case query s \<longleftrightarrow>
     (\<exists>before w after. s = before @ w @ after \<and> equal_ignoring_case query w)"

text \<open>The two tests of the search loop, as the code writes them.\<close>

definition description_matches :: "string \<Rightarrow> Transaction \<Rightarrow> bool" where
  "description_matches query t \<longleftrightarrow> sublist (lower query) (lower (description t))"

definition tags_match :: "string \<Rightarrow> Transaction \<Rightarrow> bool" where
  "tags_match query t \<longleftrightarrow> (\<exists>tag\<in>set (tags t). sublist (lower query) (lower tag))"

text \<open>
  A ledger for the examples: the first five transactions of \<^verbatim>\<open>demo_setup\<close> (lines 889 to
  895), the last expense a month later than the others, with one limit that is exceeded,
  one that is met exactly and one that is not reached.
\<close>

definition demo :: ExpenseTracker where
  "demo =
     \<lparr>transactions =
        [\<lparr>id_t = 1, type = INCOME, amount = 5000, category = ''Salary'',
          description = ''Monthly salary'', date = ''2024-03-01'', tags = [''salary'', ''work'']\<rparr>,
         \<lparr>id_t = 2, type = INCOME, amount = 500, category = ''Freelance'',
          description = ''Web development project'', date = ''2024-03-05'',
          tags = [''freelance'', ''programming'']\<rparr>,
         \<lparr>id_t = 3, type = EXPENSE, amount = 150, category = ''Food'',
          description = ''Groceries'', date = ''2024-03-10'', tags = [''groceries'', ''supermarket'']\<rparr>,
         \<lparr>id_t = 4, type = EXPENSE, amount = 75, category = ''Food'',
          description = ''Restaurant dinner'', date = ''2024-03-15'', tags = [''dining'', ''restaurant'']\<rparr>,
         \<lparr>id_t = 5, type = EXPENSE, amount = 50, category = ''Transport'',
          description = ''Gas'', date = ''2024-04-02'', tags = [''car'', ''fuel'']\<rparr>],
      budget_limits = [(''Food'', 200), (''Transport'', 50), (''Entertainment'', 200)],
      data_file = None\<rparr>"

text \<open>
  Two ledgers the class accepts (\<^verbatim>\<open>add_transaction\<close> does not look at the sign of the
  amount): an income of \<open>-100\<close>, and an expense of \<open>-50\<close>.
\<close>

definition negative_income :: ExpenseTracker where
  "negative_income =
     \<lparr>transactions =
        [\<lparr>id_t = 1, type = INCOME, amount = - 100, category = ''Salary'',
          description = ''Correction'', date = ''2024-03-01'', tags = []\<rparr>],
      budget_limits = [], data_file = None\<rparr>"

definition negative_expense :: ExpenseTracker where
  "negative_expense =
     \<lparr>transactions =
        [\<lparr>id_t = 1, type = EXPENSE, amount = - 50, category = ''Food'',
          description = ''Refund'', date = ''2024-03-01'', tags = []\<rparr>],
      budget_limits = [], data_file = None\<rparr>"

text \<open>
  A ledger for the search examples: a description with the word in capitals, a tag with
  the word, both, and neither.
\<close>

definition diners :: ExpenseTracker where
  "diners =
     \<lparr>transactions =
        [\<lparr>id_t = 1, type = EXPENSE, amount = 75, category = ''Food'',
          description = ''Restaurant dinner'', date = ''2024-03-15'', tags = [''dining'']\<rparr>,
         \<lparr>id_t = 2, type = EXPENSE, amount = 40, category = ''Food'',
          description = ''Team lunch'', date = ''2024-03-16'', tags = [''work'', ''restaurant'']\<rparr>,
         \<lparr>id_t = 3, type = EXPENSE, amount = 20, category = ''Food'',
          description = ''Tip at the restaurant'', date = ''2024-03-16'', tags = [''Restaurants'']\<rparr>,
         \<lparr>id_t = 4, type = EXPENSE, amount = 50, category = ''Transport'',
          description = ''Gas'', date = ''2024-03-20'', tags = []\<rparr>],
      budget_limits = [], data_file = None\<rparr>"

text \<open>
  Documents for the load examples: one whose second item has the type \<^verbatim>\<open>transfer\<close>,
  the empty object, an object with the limits only, an object with the transactions only
  (its item without tags), and a list.
\<close>

definition unknown_kind_file :: file_content where
  "unknown_kind_file =
     Document (JObj
       [(''transactions'',
         JArr [JObj [(''id'', JInt 1), (''type'', JStr ''income''), (''amount'', JInt 5000),
                     (''category'', JStr ''Salary''), (''description'', JStr ''Monthly salary''),
                     (''date'', JStr ''2024-03-01''), (''tags'', JArr [JStr ''salary''])],
               JObj [(''id'', JInt 2), (''type'', JStr ''transfer''), (''amount'', JInt 40),
                     (''category'', JStr ''Food''), (''description'', JStr ''Team lunch''),
                     (''date'', JStr ''2024-03-16'')]]),
        (''budget_limits'', JObj [(''Food'', JInt 300)])])"

definition keyless_file :: file_content where
  "keyless_file = Document (JObj [])"

definition limits_only_file :: file_content where
  "limits_only_file = Document (JObj [(''budget_limits'', JObj [(''Food'', JInt 300)])])"

definition transactions_only_file :: file_content where
  "transactions_only_file =
     Document (JObj
       [(''transactions'',
         JArr [JObj [(''id'', JInt 7), (''type'', JStr ''expense''), (''amount'', JFloat 12.5),
                     (''category'', JStr ''Food''), (''description'', JStr ''Lunch''),
                     (''date'', JStr ''2024-03-16'')]])])"

definition list_file :: file_content where
  "list_file = Document (JArr [])"

text \<open>
  Two documents with an expense whose date is not what \<^verbatim>\<open>add_transaction\<close> writes: one
  with slashes, which \<^verbatim>\<open>strptime\<close> refuses, and one of the year 999.
\<close>

definition ill_dated_file :: file_content where
  "ill_dated_file =
     Document (JObj
       [(''transactions'',
         JArr [JObj [(''id'', JInt 1), (''type'', JStr ''expense''), (''amount'', JInt 40),
                     (''category'', JStr ''Food''), (''description'', JStr ''Team lunch''),
                     (''date'', JStr ''2024/03/16''), (''tags'', JArr [])]]),
        (''budget_limits'', JObj [])])"

definition year_999_file :: file_content where
  "year_999_file =
     Document (JObj
       [(''transactions'',
         JArr [JObj [(''id'', JInt 1), (''type'', JStr ''expense''), (''amount'', JInt 40),
                     (''category'', JStr ''Food''), (''description'', JStr ''Banquet''),
                     (''date'', JStr ''0999-03-01''), (''tags'', JArr [])]]),
        (''budget_limits'', JObj [])])"

text \<open>
  A ledger for the search with capital letters beyond ASCII: a description with the word in
  capitals, and a tag with a capital first letter.
\<close>

definition cafes :: ExpenseTracker where
  "cafes =
     \<lparr>transactions =
        [\<lparr>id_t = 1, type = EXPENSE, amount = 9, category = ''Food'',
          description = ''CAF'' @ [CHR 0xC9] @ '' Central'', date = ''2024-03-15'', tags = []\<rparr>,
         \<lparr>id_t = 2, type = EXPENSE, amount = 4, category = ''Food'',
          description = ''Bakery'', date = ''2024-03-16'', tags = [''Caf'' @ [CHR 0xE9]]\<rparr>],
      budget_limits = [], data_file = None\<rparr>"

text \<open>A ledger with an expense dated without leading zeros.\<close>

definition short_dated :: ExpenseTracker where
  "short_dated =
     \<lparr>transactions =
        [\<lparr>id_t = 1, type = EXPENSE, amount = 40, category = ''Food'',
          description = ''Team lunch'', date = ''2024-3-5'', tags = []\<rparr>],
      budget_limits = [], data_file = None\<rparr>"

section \<open>Category spending: what the loop computes\<close>

text \<open>Evaluation of the dates of the example ledger.\<close>

lemma strptime_demo [simp]:
  "strptime ''2024-03-10'' = Inr \<lparr>year = 2024, month = 3, day = 10\<rparr>"
  "strptime ''2024-03-15'' = Inr \<lparr>year = 2024, month = 3, day = 15\<rparr>"
  "strptime ''2024-04-02'' = Inr \<lparr>year = 2024, month = 4, day = 2\<rparr>"
  "strptime ''2024-03-01'' = Inr \<lparr>year = 2024, month = 3, day = 1\<rparr>"
  "strptime ''2024-03-05'' = Inr \<lparr>year = 2024, month = 3, day = 5\<rparr>"
  by (simp_all add: strptime_def parse_m_def parse_d_def digit_of_def days_in_month_def is_leap_def)

lemma strftime_demo [simp]:
  "strftime_Ym \<lparr>year = 2024, month = 3, day = d\<rparr> = ''2024-03''"
  "strftime_Ym \<lparr>year = 2024, month = 4, day = d\<rparr> = ''2024-04''"
  by (simp_all add: strftime_Ym_def strftime_Y_def pad4_def pad2_def digit_char_def)

text \<open>
  The loop, started from any dict: a category with no expense in range keeps its entry, any
  other category gets its entry (or 0) plus the sum of its expenses in range. The loop
  returns when every expense is well dated.
\<close>

lemma spending_loop_eq:
  assumes "\<forall>t\<in>set ts. type t = EXPENSE \<longrightarrow> well_dated t"
  shows "spending_loop mo ts acc =
           Inr (\<lambda>c. if filter (counts_for mo c) ts = [] then acc c
                    else Some (dict_get acc c 0 + sum_list (map amount (filter (counts_for mo c) ts))))"
  using assms
proof (induction ts arbitrary: acc)
  case Nil
  then show ?case by simp
next
  case (Cons t ts)
  from Cons.prems have rest: "\<forall>t\<in>set ts. type t = EXPENSE \<longrightarrow> well_dated t"
    by simp
  note IH = Cons.IH [OF rest]
  show ?case
  proof (cases "type t = EXPENSE")
    case False
    then have "\<And>c. \<not> counts_for mo c t"
      by (simp add: counts_for_def)
    with False show ?thesis
      by (simp add: IH cong: if_cong)
  next
    case True
    with Cons.prems obtain d where d: "strptime (date t) = Inr d"
      by (auto simp: well_dated_def split: sum.splits)
    show ?thesis
    proof (cases "mo = None \<or> Some (strftime_Ym d) = mo")
      case False
      then have "\<And>c. \<not> counts_for mo c t"
        by (auto simp: counts_for_def in_range_def d split: option.splits)
      moreover from False have ne: "mo \<noteq> None" "Some (strftime_Ym d) \<noteq> mo"
        by simp_all
      have "spending_loop mo (t # ts) acc = spending_loop mo ts acc"
        using True d ne by auto
      ultimately show ?thesis
        by (simp add: IH cong: if_cong)
    next
      case hit: True
      then have cf: "\<And>c. counts_for mo c t \<longleftrightarrow> category t = c"
        using True by (auto simp: counts_for_def in_range_def d split: option.splits)
      have "spending_loop mo (t # ts) acc =
              spending_loop mo ts (acc(category t \<mapsto> dict_get acc (category t) 0 + amount t))"
        using True d hit by simp
      also have "\<dots> = Inr (\<lambda>c. if filter (counts_for mo c) (t # ts) = [] then acc c
                    else Some (dict_get acc c 0 + sum_list (map amount (filter (counts_for mo c) (t # ts)))))"
        by (auto simp: IH cf fun_eq_iff dict_get_def)
      finally show ?thesis .
    qed
  qed
qed

text \<open>An expense whose date does not parse makes the loop raise, whatever the month.\<close>

lemma spending_loop_raises:
  assumes "t \<in> set ts" "type t = EXPENSE" "\<not> well_dated t"
  shows "spending_loop mo ts acc = Inl ValueError"
  using assms
proof (induction ts arbitrary: acc)
  case Nil
  then show ?case by simp
next
  case (Cons u ts)
  have bad: "\<And>s. strptime s = Inl ValueError \<or> (\<exists>d. strptime s = Inr d)"
    by (auto simp: strptime_def split: option.splits list.splits prod.splits)
  show ?case
  proof (cases "u = t")
    case True
    with Cons.prems bad [of "date t"] show ?thesis
      by (auto simp: well_dated_def split: sum.splits)
  next
    case False
    with Cons.prems have "t \<in> set ts" by simp
    then have "\<And>acc. spending_loop mo ts acc = Inl ValueError"
      using Cons.IH Cons.prems by blast
    then show ?thesis
      using bad [of "date u"] by (auto split: sum.splits)
  qed
qed

text \<open>
  The all-time totals of the example are those of the specification: Food 225 and
  Transport 50, and no entry for the income category.
\<close>

lemma demo_spending:
  "fst (get_category_spending None demo) = Inr [''Food'' \<mapsto> 225, ''Transport'' \<mapsto> 50]"
  by (simp add: get_category_spending_def demo_def dict_get_def)

text \<open>
  A ledger from a file carries the dates of the file: \<^verbatim>\<open>load_data\<close> stores the text of
  the key \<^verbatim>\<open>date\<close> as it is (line 57).
\<close>

lemma init_ill_dated:
  "init (Some ill_dated_file) =
     (Inr (),
      \<lparr>transactions =
         [\<lparr>id_t = 1, type = EXPENSE, amount = 40, category = ''Food'',
           description = ''Team lunch'', date = ''2024/03/16'', tags = []\<rparr>],
       budget_limits = [], data_file = Some ill_dated_file\<rparr>)"
  by (simp add: init_def load_data_def ill_dated_file_def dict_get_def transaction_of_def
      subscript_def TransactionType_of_def)

lemma init_year_999:
  "init (Some year_999_file) =
     (Inr (),
      \<lparr>transactions =
         [\<lparr>id_t = 1, type = EXPENSE, amount = 40, category = ''Food'',
           description = ''Banquet'', date = ''0999-03-01'', tags = []\<rparr>],
       budget_limits = [], data_file = Some year_999_file\<rparr>)"
  by (simp add: init_def load_data_def year_999_file_def dict_get_def transaction_of_def
      subscript_def TransactionType_of_def)

lemma strptime_examples:
  "strptime ''2024/03/16'' = Inl ValueError"
  "strptime ''0999-03-01'' = Inr \<lparr>year = 999, month = 3, day = 1\<rparr>"
  by (simp_all add: strptime_def parse_m_def parse_d_def digit_of_def days_in_month_def is_leap_def)

lemma strftime_999: "strftime_Ym \<lparr>year = 999, month = 3, day = d\<rparr> = ''999-03''"
  by (simp add: strftime_Ym_def strftime_Y_def pad2_def digit_char_def)

text \<open>
  For a date of the year 1000 or later, to be in range of a month is to have the four digits
  of the year, a hyphen and the two digits of the month as the text of the month.
\<close>

lemma in_range_four_digits:
  assumes "strptime (date t) = Inr d" "1000 \<le> year d"
  shows "in_range (Some m) t \<longleftrightarrow> m = pad4 (year d) @ ''-'' @ pad2 (month d)"
  using assms by (auto simp: in_range_def strftime_Ym_def strftime_Y_def)


text \<open>
  Claim C1 as stated promises a mapping for every ledger state, with the expenses of the
  given year-month, the year written with four digits. On the ledger loaded from the file
  whose expense is dated \<^verbatim>\<open>2024/03/16\<close> the method raises \<^verbatim>\<open>ValueError\<close> at line 122,
  also with no month. On the ledger loaded from the file whose expense is dated
  \<^verbatim>\<open>0999-03-01\<close> the month \<^verbatim>\<open>0999-03\<close> gives the empty mapping, since
  \<^verbatim>\<open>strftime("%Y-%m")\<close> prints \<^verbatim>\<open>999-03\<close>, the month under which the expense is counted.
\<close>

theorem category_spending_counterexample:
  "fst (init (Some ill_dated_file)) = Inr ()
   \<and> fst (get_category_spending None (snd (init (Some ill_dated_file)))) = Inl ValueError
   \<and> fst (init (Some year_999_file)) = Inr ()
   \<and> fst (get_category_spending (Some ''0999-03'') (snd (init (Some year_999_file)))) = Inr Map.empty
   \<and> fst (get_category_spending (Some ''999-03'') (snd (init (Some year_999_file)))) =
       Inr [''Food'' \<mapsto> 40]"
  by (simp add: init_ill_dated init_year_999 get_category_spending_def strptime_examples
      strftime_999 dict_get_def)

text \<open>
  Claim C1, amended. For every ledger state and every optional month: when the date of
  every transaction of type \<open>EXPENSE\<close> is parsed by \<^verbatim>\<open>strptime\<close>,
  \<^verbatim>\<open>get_category_spending\<close> returns a mapping. Its keys are exactly the categories that
  have at least one expense in range, so income never contributes and a category with no
  expense in range is absent. The value at a key is the sum of the amounts of the expenses
  of that category in range. With no month every date is in range; with a month, a date is
  in range when \<^verbatim>\<open>strftime("%Y-%m")\<close> of it is the month, which for a year from 1000 on is
  the year in four digits, a hyphen and the month in two digits. When the date of some
  expense is not parsed, the method raises \<^verbatim>\<open>ValueError\<close>.
\<close>

theorem category_spending_correct:
  "((\<forall>t\<in>set (transactions self). type t = EXPENSE \<longrightarrow> well_dated t) \<longrightarrow>
      (\<exists>spending.
           fst (get_category_spending month_arg self) = Inr spending
         \<and> dom spending =
             {c. \<exists>t\<in>set (transactions self). type t = EXPENSE \<and> category t = c \<and> in_range month_arg t}
         \<and> (\<forall>c\<in>dom spending.
               spending c =
                 Some (sum_list (map amount
                   (filter (\<lambda>t. type t = EXPENSE \<and> category t = c \<and> in_range month_arg t)
                      (transactions self)))))))
   \<and> (\<not> (\<forall>t\<in>set (transactions self). type t = EXPENSE \<longrightarrow> well_dated t) \<longrightarrow>
        fst (get_category_spending month_arg self) = Inl ValueError)
   \<and> (\<forall>t\<in>set (transactions self). \<forall>d m. strptime (date t) = Inr d \<and> 1000 \<le> year d \<longrightarrow>
        (in_range (Some m) t \<longleftrightarrow> m = pad4 (year d) @ ''-'' @ pad2 (month d)))"
proof (intro conjI impI)
  assume wd: "\<forall>t\<in>set (transactions self). type t = EXPENSE \<longrightarrow> well_dated t"
  let ?sp = "\<lambda>c. if filter (counts_for month_arg c) (transactions self) = [] then None
                  else Some (sum_list (map amount (filter (counts_for month_arg c) (transactions self))))"
  have "fst (get_category_spending month_arg self) = Inr ?sp"
    by (simp add: get_category_spending_def spending_loop_eq [OF wd] dict_get_def cong: if_cong)
  moreover have "dom ?sp = {c. \<exists>t\<in>set (transactions self). counts_for month_arg c t}"
    by (auto simp: dom_def filter_empty_conv)
  moreover have "\<forall>c\<in>dom ?sp. ?sp c = Some (sum_list (map amount (filter (counts_for month_arg c) (transactions self))))"
    by (auto simp: dom_def)
  ultimately show "\<exists>spending.
           fst (get_category_spending month_arg self) = Inr spending
         \<and> dom spending =
             {c. \<exists>t\<in>set (transactions self). type t = EXPENSE \<and> category t = c \<and> in_range month_arg t}
         \<and> (\<forall>c\<in>dom spending.
               spending c =
                 Some (sum_list (map amount
                   (filter (\<lambda>t. type t = EXPENSE \<and> category t = c \<and> in_range month_arg t)
                      (transactions self)))))"
    unfolding counts_for_def by blast
next
  assume "\<not> (\<forall>t\<in>set (transactions self). type t = EXPENSE \<longrightarrow> well_dated t)"
  then obtain t where "t \<in> set (transactions self)" "type t = EXPENSE" "\<not> well_dated t"
    by blast
  then show "fst (get_category_spending month_arg self) = Inl ValueError"
    by (simp add: get_category_spending_def spending_loop_raises)
next
  show "\<forall>t\<in>set (transactions self). \<forall>d m. strptime (date t) = Inr d \<and> 1000 \<le> year d \<longrightarrow>
        (in_range (Some m) t \<longleftrightarrow> m = pad4 (year d) @ ''-'' @ pad2 (month d))"
    by (simp add: in_range_four_digits)
qed

theorem category_spending_correct_witness:
  "(\<exists>spending. fst (get_category_spending (Some ''2024-03'') demo) = Inr spending
     \<and> dom spending = {''Food''} \<and> spending ''Food'' = Some 225)
   \<and> fst (get_category_spending None (snd (init (Some ill_dated_file)))) = Inl ValueError"
proof -
  have wd: "\<forall>t\<in>set (transactions demo). type t = EXPENSE \<longrightarrow> well_dated t"
    by (simp add: demo_def well_dated_def)
  from category_spending_correct [of demo "Some ''2024-03''", THEN conjunct1, THEN mp, OF wd]
  have march: "\<exists>spending. fst (get_category_spending (Some ''2024-03'') demo) = Inr spending
     \<and> dom spending = {''Food''} \<and> spending ''Food'' = Some 225"
  proof (elim exE conjE)
    fix spending
    assume r: "fst (get_category_spending (Some ''2024-03'') demo) = Inr spending"
      and d: "dom spending =
             {c. \<exists>t\<in>set (transactions demo). type t = EXPENSE \<and> category t = c \<and> in_range (Some ''2024-03'') t}"
      and v: "\<forall>c\<in>dom spending.
               spending c =
                 Some (sum_list (map amount
                   (filter (\<lambda>t. type t = EXPENSE \<and> category t = c \<and> in_range (Some ''2024-03'') t)
                      (transactions demo))))"
    have d': "dom spending = {''Food''}"
      unfolding d by (auto simp: demo_def in_range_def)
    with v have "spending ''Food'' = Some 225"
      by (simp add: demo_def in_range_def)
    with r d' show ?thesis by blast
  qed
  have "\<not> (\<forall>t\<in>set (transactions (snd (init (Some ill_dated_file)))). type t = EXPENSE \<longrightarrow> well_dated t)"
    by (simp add: init_ill_dated well_dated_def strptime_examples)
  with category_spending_correct [of "snd (init (Some ill_dated_file))" None,
      THEN conjunct2, THEN conjunct1]
  have "fst (get_category_spending None (snd (init (Some ill_dated_file)))) = Inl ValueError"
    by (rule mp)
  with march show ?thesis
    by (rule conjI)
qed

section \<open>Budget alerts: one alert for each limit that is exceeded\<close>

text \<open>
  The loop appends, in the order of the limits, the alert of every item whose category has
  spent more than its limit.
\<close>

lemma alerts_loop_eq:
  "alerts_loop items sp acc =
     acc @ map (\<lambda>(c, l). \<lparr>alert_category = c, alert_limit = l, alert_spent = dict_get sp c 0,
                            alert_exceeded_by = dict_get sp c 0 - l\<rparr>)
             (filter (\<lambda>(c, l). dict_get sp c 0 > l) items)"
  by (induction items arbitrary: acc) (auto simp: Let_def)

lemma check_budget_alerts_eq:
  "fst (get_category_spending mo self) = Inr sp \<Longrightarrow>
   fst (check_budget_alerts mo self) =
     Inr (map (\<lambda>(c, l). \<lparr>alert_category = c, alert_limit = l, alert_spent = dict_get sp c 0,
                            alert_exceeded_by = dict_get sp c 0 - l\<rparr>)
             (filter (\<lambda>(c, l). dict_get sp c 0 > l) (budget_limits self)))"
  by (simp add: check_budget_alerts_def get_category_spending_def alerts_loop_eq)

text \<open>
  The example of the specification: with the limit 300 for Food and 225 spent there is no
  alert; after another expense of 100 for Food there is one, with spent 325 and excess 25.
\<close>

lemma strptime_april_3: "strptime ''2024-04-03'' = Inr \<lparr>year = 2024, month = 4, day = 3\<rparr>"
  by (simp add: strptime_def parse_m_def parse_d_def digit_of_def days_in_month_def is_leap_def)

lemma budget_example:
  "fst (check_budget_alerts None (set_budget_limit ''Food'' 300 demo)) = Inr []"
  "fst (check_budget_alerts None
     (snd (add_transaction EXPENSE 100 ''Food'' ''Party'' None \<lparr>year = 2024, month = 4, day = 3\<rparr>
        (set_budget_limit ''Food'' 300 demo)))) =
   Inr [\<lparr>alert_category = ''Food'', alert_limit = 300, alert_spent = 325, alert_exceeded_by = 25\<rparr>]"
  by (simp_all add: check_budget_alerts_def get_category_spending_def set_budget_limit_def
      add_transaction_def save_data_def demo_def dict_get_def Let_def strftime_Ymd_def
      strftime_Y_def pad4_def
      pad2_def digit_char_def get_next_id_def strptime_april_3)

text \<open>
  Claim C2. For a ledger whose expenses are well dated and every optional month,
  \<^verbatim>\<open>check_budget_alerts\<close> returns the alerts of the configured limits, in their order,
  for which \<open>spent\<close>, the entry of the category in the result of
  \<^verbatim>\<open>get_category_spending\<close> or 0, is strictly greater than the limit. So an alert with
  category, limit, spent and excess \<open>spent - limit\<close> is emitted if and only if the category
  has that limit and has spent more; a limit that is met exactly gives no alert, and a
  category with no limit is never alerted.
\<close>

theorem check_budget_alerts_correct:
  assumes "\<forall>t\<in>set (transactions self). type t = EXPENSE \<longrightarrow> well_dated t"
  shows "\<exists>spending alerts.
           fst (get_category_spending month_arg self) = Inr spending
         \<and> fst (check_budget_alerts month_arg self) = Inr alerts
         \<and> alerts =
             map (\<lambda>(c, l). \<lparr>alert_category = c, alert_limit = l, alert_spent = dict_get spending c 0,
                              alert_exceeded_by = dict_get spending c 0 - l\<rparr>)
               (filter (\<lambda>(c, l). dict_get spending c 0 > l) (budget_limits self))
         \<and> (\<forall>a. a \<in> set alerts \<longleftrightarrow>
               (\<exists>c l. (c, l) \<in> set (budget_limits self) \<and> dict_get spending c 0 > l
                  \<and> a = \<lparr>alert_category = c, alert_limit = l, alert_spent = dict_get spending c 0,
                          alert_exceeded_by = dict_get spending c 0 - l\<rparr>))
         \<and> (\<forall>c l. (c, l) \<in> set (budget_limits self) \<and> dict_get spending c 0 = l \<longrightarrow>
               (\<forall>a\<in>set alerts. \<not> (alert_category a = c \<and> alert_limit a = l)))
         \<and> (\<forall>c. c \<notin> fst ` set (budget_limits self) \<longrightarrow> (\<forall>a\<in>set alerts. alert_category a \<noteq> c))"
proof -
  obtain spending where sp: "fst (get_category_spending month_arg self) = Inr spending"
    by (simp add: get_category_spending_def spending_loop_eq [OF assms])
  let ?mk = "\<lambda>(c, l). \<lparr>alert_category = c, alert_limit = l, alert_spent = dict_get spending c 0,
                          alert_exceeded_by = dict_get spending c 0 - l\<rparr>"
  let ?alerts = "map ?mk (filter (\<lambda>(c, l). dict_get spending c 0 > l) (budget_limits self))"
  have al: "fst (check_budget_alerts month_arg self) = Inr ?alerts"
    by (rule check_budget_alerts_eq [OF sp])
  have iff: "\<forall>a. a \<in> set ?alerts \<longleftrightarrow>
               (\<exists>c l. (c, l) \<in> set (budget_limits self) \<and> dict_get spending c 0 > l
                  \<and> a = \<lparr>alert_category = c, alert_limit = l, alert_spent = dict_get spending c 0,
                          alert_exceeded_by = dict_get spending c 0 - l\<rparr>)"
    by (auto simp: image_iff)
  have eq: "\<forall>c l. (c, l) \<in> set (budget_limits self) \<and> dict_get spending c 0 = l \<longrightarrow>
               (\<forall>a\<in>set ?alerts. \<not> (alert_category a = c \<and> alert_limit a = l))"
    by auto
  have nolimit: "\<forall>c. c \<notin> fst ` set (budget_limits self) \<longrightarrow> (\<forall>a\<in>set ?alerts. alert_category a \<noteq> c)"
    by (auto simp: image_iff)
  from sp al iff eq nolimit show ?thesis
    by blast
qed



theorem check_budget_alerts_correct_witness:
  "fst (check_budget_alerts None demo) =
     Inr [\<lparr>alert_category = ''Food'', alert_limit = 200, alert_spent = 225, alert_exceeded_by = 25\<rparr>]"
proof -
  have wd: "\<forall>t\<in>set (transactions demo). type t = EXPENSE \<longrightarrow> well_dated t"
    by (simp add: demo_def well_dated_def)
  from check_budget_alerts_correct [OF wd, of None] show ?thesis
  proof (elim exE conjE)
    fix spending alerts
    assume sp: "fst (get_category_spending None demo) = Inr spending"
      and al: "fst (check_budget_alerts None demo) = Inr alerts"
      and eq: "alerts =
             map (\<lambda>(c, l). \<lparr>alert_category = c, alert_limit = l, alert_spent = dict_get spending c 0,
                              alert_exceeded_by = dict_get spending c 0 - l\<rparr>)
               (filter (\<lambda>(c, l). dict_get spending c 0 > l) (budget_limits demo))"
    from sp have "spending = [''Food'' \<mapsto> 225, ''Transport'' \<mapsto> 50]"
      by (simp add: demo_spending)
    then have vals: "dict_get spending ''Food'' 0 = 225" "dict_get spending ''Transport'' 0 = 50"
      "dict_get spending ''Entertainment'' 0 = 0"
      by (simp_all add: dict_get_def)
    have "budget_limits demo = [(''Food'', 200), (''Transport'', 50), (''Entertainment'', 200)]"
      by (simp add: demo_def)
    with eq vals have "alerts = [\<lparr>alert_category = ''Food'', alert_limit = 200, alert_spent = 225, alert_exceeded_by = 25\<rparr>]"
      by simp
    with al show ?thesis by simp
  qed
qed



section \<open>Profit and loss: the totals and the guard of the margin\<close>

text \<open>
  The loop, started from any pair of totals, adds the income in range to the first and the
  expenses in range to the second. It returns when every transaction is well dated.
\<close>

lemma profit_loop_eq:
  assumes "\<forall>t\<in>set ts. well_dated t"
  shows "profit_loop mo ts (i, e) =
           Inr (i + sum_list (map amount (filter (\<lambda>t. type t = INCOME \<and> in_range mo t) ts)),
                e + sum_list (map amount (filter (\<lambda>t. type t = EXPENSE \<and> in_range mo t) ts)))"
  using assms
proof (induction ts arbitrary: i e)
  case Nil
  then show ?case by simp
next
  case (Cons t ts)
  from Cons.prems obtain d where d: "strptime (date t) = Inr d"
    by (auto simp: well_dated_def split: sum.splits)
  from Cons.prems have rest: "\<forall>t\<in>set ts. well_dated t"
    by simp
  note IH = Cons.IH [OF rest]
  have ty: "type t = INCOME \<or> type t = EXPENSE"
    by (cases "type t") simp_all
  show ?case
  proof (cases "mo = None \<or> Some (strftime_Ym d) = mo")
    case True
    then have "in_range mo t"
      by (auto simp: in_range_def d split: option.splits)
    with True d ty show ?thesis
      by (auto simp: IH)
  next
    case False
    then have ne: "mo \<noteq> None" "Some (strftime_Ym d) \<noteq> mo"
      by simp_all
    then have "\<not> in_range mo t"
      by (auto simp: in_range_def d split: option.splits)
    moreover have "profit_loop mo (t # ts) (i, e) = profit_loop mo ts (i, e)"
      using d ne by auto
    ultimately show ?thesis
      by (simp add: IH)
  qed
qed

text \<open>
  April of the example ledger has no income and an expense of 50: the margin is 0 and
  there is no profit.
\<close>

lemma profit_example:
  "fst (calculate_profit_loss (Some ''2024-04'') demo) =
     Inr \<lparr>total_income = 0, total_expenses = 50, net_profit = - 50, profit_margin = 0,
          is_profitable = False\<rparr>"
  by (simp add: calculate_profit_loss_def demo_def)

text \<open>A transaction whose date does not parse makes the loop raise, whatever its type.\<close>

lemma strptime_cases: "strptime s = Inl ValueError \<or> (\<exists>d. strptime s = Inr d)"
  by (auto simp: strptime_def split: option.splits list.splits prod.splits)

lemma profit_loop_raises:
  assumes "t \<in> set ts" "\<not> well_dated t"
  shows "profit_loop mo ts (i, e) = Inl ValueError"
  using assms
proof (induction ts arbitrary: i e)
  case Nil
  then show ?case by simp
next
  case (Cons u ts)
  show ?case
  proof (cases "well_dated u")
    case False
    with strptime_cases [of "date u"] show ?thesis
      by (auto simp: well_dated_def split: sum.splits)
  next
    case True
    with Cons.prems have "t \<in> set ts" by auto
    then have "\<And>i e. profit_loop mo ts (i, e) = Inl ValueError"
      using Cons.IH Cons.prems by blast
    with True show ?thesis
      by (auto simp: well_dated_def split: sum.splits)
  qed
qed

text \<open>
  Claim C3 as stated gives the margin \<open>net_profit / total_income * 100\<close> whenever the total
  income is not zero, no profit whenever the income is zero and the expenses are not, and
  a result for every ledger state. The method guards the division with
  \<^verbatim>\<open>total_income > 0\<close> (line 161). On the ledger with an income of \<open>-100\<close> the total
  income is \<open>-100\<close>, not zero, the quotient is 100, and the method returns the margin 0. On
  the ledger with an expense of \<open>-50\<close> the income is zero, the expenses are \<open>-50\<close>, not
  zero, and the method reports a profit. On the ledger loaded from the file whose expense is
  dated \<^verbatim>\<open>2024/03/16\<close> the method raises \<^verbatim>\<open>ValueError\<close> at line 152.
\<close>

theorem profit_loss_counterexample:
  "(let r = \<lparr>total_income = - 100, total_expenses = 0, net_profit = - 100, profit_margin = 0,
             is_profitable = False\<rparr>
    in fst (calculate_profit_loss None negative_income) = Inr r
       \<and> total_income r \<noteq> 0
       \<and> profit_margin r \<noteq> net_profit r / total_income r * 100)
   \<and> (let r = \<lparr>total_income = 0, total_expenses = - 50, net_profit = 50, profit_margin = 0,
                is_profitable = True\<rparr>
       in fst (calculate_profit_loss None negative_expense) = Inr r
          \<and> total_income r = 0 \<and> total_expenses r \<noteq> 0
          \<and> is_profitable r)
   \<and> fst (init (Some ill_dated_file)) = Inr ()
   \<and> fst (calculate_profit_loss None (snd (init (Some ill_dated_file)))) = Inl ValueError"
  by (simp add: calculate_profit_loss_def negative_income_def negative_expense_def
      init_ill_dated strptime_examples)


text \<open>
  Claim C3, amended. For every ledger state and every optional month: when the date of
  every transaction is parsed by \<^verbatim>\<open>strptime\<close>, \<^verbatim>\<open>calculate_profit_loss\<close> returns the
  sum of the income in range, the sum of the expenses in range, their difference as net
  profit, the margin \<open>net_profit / total_income * 100\<close> when the total income is greater
  than zero and 0 otherwise, and \<open>is_profitable\<close> exactly when the net profit is greater
  than zero; with zero income and expenses greater than zero the margin is 0 and there is
  no profit. When the date of some transaction is not parsed, the method raises
  \<^verbatim>\<open>ValueError\<close>.
\<close>

theorem profit_loss_correct:
  "((\<forall>t\<in>set (transactions self). well_dated t) \<longrightarrow>
      (\<exists>r. fst (calculate_profit_loss month_arg self) = Inr r
         \<and> total_income r =
             sum_list (map amount
               (filter (\<lambda>t. type t = INCOME \<and> in_range month_arg t) (transactions self)))
         \<and> total_expenses r =
             sum_list (map amount
               (filter (\<lambda>t. type t = EXPENSE \<and> in_range month_arg t) (transactions self)))
         \<and> net_profit r = total_income r - total_expenses r
         \<and> profit_margin r =
             (if total_income r > 0 then net_profit r / total_income r * 100 else 0)
         \<and> is_profitable r = (net_profit r > 0)
         \<and> (total_income r = 0 \<and> total_expenses r > 0 \<longrightarrow>
               profit_margin r = 0 \<and> \<not> is_profitable r)))
   \<and> (\<not> (\<forall>t\<in>set (transactions self). well_dated t) \<longrightarrow>
        fst (calculate_profit_loss month_arg self) = Inl ValueError)"
proof (intro conjI impI)
  assume wd: "\<forall>t\<in>set (transactions self). well_dated t"
  show "\<exists>r. fst (calculate_profit_loss month_arg self) = Inr r
         \<and> total_income r =
             sum_list (map amount
               (filter (\<lambda>t. type t = INCOME \<and> in_range month_arg t) (transactions self)))
         \<and> total_expenses r =
             sum_list (map amount
               (filter (\<lambda>t. type t = EXPENSE \<and> in_range month_arg t) (transactions self)))
         \<and> net_profit r = total_income r - total_expenses r
         \<and> profit_margin r =
             (if total_income r > 0 then net_profit r / total_income r * 100 else 0)
         \<and> is_profitable r = (net_profit r > 0)
         \<and> (total_income r = 0 \<and> total_expenses r > 0 \<longrightarrow>
               profit_margin r = 0 \<and> \<not> is_profitable r)"
    by (simp add: calculate_profit_loss_def profit_loop_eq [OF wd] Let_def)
next
  assume "\<not> (\<forall>t\<in>set (transactions self). well_dated t)"
  then obtain t where "t \<in> set (transactions self)" "\<not> well_dated t"
    by blast
  then show "fst (calculate_profit_loss month_arg self) = Inl ValueError"
    by (simp add: calculate_profit_loss_def profit_loop_raises)
qed

theorem profit_loss_correct_witness:
  "(\<exists>r. fst (calculate_profit_loss None demo) = Inr r
      \<and> total_income r = 5500 \<and> total_expenses r = 275 \<and> net_profit r = 5225
      \<and> profit_margin r = 95 \<and> is_profitable r)
   \<and> (\<exists>r. fst (calculate_profit_loss (Some ''2024-04'') demo) = Inr r
      \<and> total_income r = 0 \<and> total_expenses r = 50 \<and> profit_margin r = 0 \<and> \<not> is_profitable r)
   \<and> fst (calculate_profit_loss None (snd (init (Some ill_dated_file)))) = Inl ValueError"
proof -
  have wd: "\<forall>t\<in>set (transactions demo). well_dated t"
    by (simp add: demo_def well_dated_def)
  from profit_loss_correct [where self = demo and month_arg = None, THEN conjunct1, THEN mp, OF wd]
  have all_time: "\<exists>r. fst (calculate_profit_loss None demo) = Inr r
      \<and> total_income r = 5500 \<and> total_expenses r = 275 \<and> net_profit r = 5225
      \<and> profit_margin r = 95 \<and> is_profitable r"
  proof (elim exE conjE)
    fix r
    assume res: "fst (calculate_profit_loss None demo) = Inr r"
      and inc: "total_income r =
             sum_list (map amount
               (filter (\<lambda>t. type t = INCOME \<and> in_range None t) (transactions demo)))"
      and exp: "total_expenses r =
             sum_list (map amount
               (filter (\<lambda>t. type t = EXPENSE \<and> in_range None t) (transactions demo)))"
      and net: "net_profit r = total_income r - total_expenses r"
      and margin: "profit_margin r =
             (if total_income r > 0 then net_profit r / total_income r * 100 else 0)"
      and prof: "is_profitable r = (net_profit r > 0)"
    from inc have i: "total_income r = 5500"
      by (simp add: demo_def in_range_def)
    from exp have e: "total_expenses r = 275"
      by (simp add: demo_def in_range_def)
    from net i e have n: "net_profit r = 5225"
      by simp
    from margin i n have m: "profit_margin r = 95"
      by simp
    from prof n have p: "is_profitable r"
      by simp
    from res i e n m p show ?thesis
      by blast
  qed
  from profit_loss_correct [where self = demo and month_arg = "Some ''2024-04''",
      THEN conjunct1, THEN mp, OF wd]
  have april: "\<exists>r. fst (calculate_profit_loss (Some ''2024-04'') demo) = Inr r
      \<and> total_income r = 0 \<and> total_expenses r = 50 \<and> profit_margin r = 0 \<and> \<not> is_profitable r"
  proof (elim exE conjE)
    fix r
    assume res: "fst (calculate_profit_loss (Some ''2024-04'') demo) = Inr r"
      and inc: "total_income r =
             sum_list (map amount
               (filter (\<lambda>t. type t = INCOME \<and> in_range (Some ''2024-04'') t) (transactions demo)))"
      and exp: "total_expenses r =
             sum_list (map amount
               (filter (\<lambda>t. type t = EXPENSE \<and> in_range (Some ''2024-04'') t) (transactions demo)))"
      and zero: "total_income r = 0 \<and> total_expenses r > 0 \<longrightarrow>
               profit_margin r = 0 \<and> \<not> is_profitable r"
    from inc have i: "total_income r = 0"
      by (simp add: demo_def in_range_def)
    from exp have e: "total_expenses r = 50"
      by (simp add: demo_def in_range_def)
    from zero i e have "profit_margin r = 0 \<and> \<not> is_profitable r"
      by simp
    with res i e show ?thesis
      by blast
  qed
  have "\<not> (\<forall>t\<in>set (transactions (snd (init (Some ill_dated_file)))). well_dated t)"
    by (simp add: init_ill_dated well_dated_def strptime_examples)
  with profit_loss_correct [where self = "snd (init (Some ill_dated_file))" and month_arg = None,
      THEN conjunct2]
  have raises: "fst (calculate_profit_loss None (snd (init (Some ill_dated_file)))) = Inl ValueError"
    by (rule mp)
  from all_time april raises show ?thesis
    by (intro conjI)
qed

section \<open>Adding transactions: the ids\<close>

text \<open>
  The next id is one more than the greatest id of the ledger, 1 for the empty ledger, hence
  greater than every id of the ledger. Saving does not change it, and adding a transaction
  raises it by one.
\<close>

lemma get_next_id_eq:
  "get_next_id self =
     (if transactions self = [] then 0 else Max (id_t ` set (transactions self))) + 1"
proof (cases "transactions self")
  case Nil
  then show ?thesis by (simp add: get_next_id_def)
next
  case (Cons t ts)
  have "fold max (map id_t ts) (id_t t) = Max (set (id_t t # map id_t ts))"
    by (simp only: Max.set_eq_fold)
  with Cons show ?thesis
    by (simp add: get_next_id_def)
qed

lemma get_next_id_greater: "t \<in> set (transactions self) \<Longrightarrow> id_t t < get_next_id self"
proof -
  assume t: "t \<in> set (transactions self)"
  then have "id_t t \<le> Max (id_t ` set (transactions self))"
    by simp
  with t show ?thesis
    by (auto simp: get_next_id_eq)
qed

lemma get_next_id_save_data [simp]: "get_next_id (save_data self) = get_next_id self"
  by (simp add: get_next_id_def save_data_def)

lemma add_transaction_id [simp]:
  "id_t (fst (add_transaction ty amt cat descr tg now self)) = get_next_id self"
  by (simp add: add_transaction_def Let_def)

lemma add_transaction_transactions [simp]:
  "transactions (snd (add_transaction ty amt cat descr tg now self)) =
     transactions self @ [fst (add_transaction ty amt cat descr tg now self)]"
  by (simp add: add_transaction_def Let_def save_data_def)

lemma get_next_id_add_transaction:
  "get_next_id (snd (add_transaction ty amt cat descr tg now self)) = get_next_id self + 1"
proof -
  let ?t = "fst (add_transaction ty amt cat descr tg now self)"
  let ?s = "snd (add_transaction ty amt cat descr tg now self)"
  have "Max (id_t ` set (transactions ?s)) = get_next_id self"
  proof (rule Max_eqI)
    show "finite (id_t ` set (transactions ?s))" by simp
    show "get_next_id self \<in> id_t ` set (transactions ?s)" by simp
    fix y assume "y \<in> id_t ` set (transactions ?s)"
    then show "y \<le> get_next_id self"
      by (auto dest: get_next_id_greater)
  qed
  then show ?thesis
    by (simp add: get_next_id_eq [of ?s])
qed

text \<open>The ids a sequence of calls returns count up from the next id of the start.\<close>

lemma add_all_ids:
  "map id_t (fst (add_all calls self)) = map (\<lambda>k. get_next_id self + int k) [0..<length calls]"
proof (induction calls arbitrary: self)
  case Nil
  then show ?case by simp
next
  case (Cons c calls)
  obtain ty amt cat descr tg now where c: "c = (ty, amt, cat, descr, tg, now)"
    by (cases c) auto
  let ?s = "snd (add_transaction ty amt cat descr tg now self)"
  have "map id_t (fst (add_all (c # calls) self)) =
          get_next_id self # map id_t (fst (add_all calls ?s))"
    by (simp add: c case_prod_beta)
  also have "\<dots> = get_next_id self # map (\<lambda>k. get_next_id self + 1 + int k) [0..<length calls]"
    by (simp add: Cons.IH get_next_id_add_transaction)
  also have "\<dots> = map (\<lambda>k. get_next_id self + int k) (0 # map Suc [0..<length calls])"
    by (simp add: add.assoc add.commute)
  also have "0 # map Suc [0..<length calls] = [0..<length (c # calls)]"
    by (simp add: upt_conv_Cons map_Suc_upt del: upt_Suc)
  finally show ?case .
qed

text \<open>Two calls on the example ledger, whose greatest id is 5, return the ids 6 and 7.\<close>

lemma demo_adds:
  "map id_t (fst (add_all
      [(EXPENSE, 100, ''Food'', ''Lunch'', None, \<lparr>year = 2024, month = 4, day = 3\<rparr>),
       (INCOME, 20, ''Other Income'', ''Refund'', Some [''refund''], \<lparr>year = 2024, month = 4, day = 4\<rparr>)]
      demo)) = [6, 7]"
  by (simp add: add_transaction_def get_next_id_def save_data_def demo_def Let_def)

text \<open>
  Claim C4. For every ledger state, \<^verbatim>\<open>add_transaction\<close> gives the new transaction the id
  (greatest id of the ledger, or 0 when it has no transaction) + 1, an id no transaction of
  the ledger has, and appends it at the end of the list. The ids returned by a sequence
  of \<^verbatim>\<open>add_transaction\<close> calls, from any ledger, are strictly increasing and pairwise
  distinct.
\<close>

theorem add_transaction_ids:
  "id_t (fst (add_transaction ty amt cat descr tg now self)) =
     (if transactions self = [] then 0 else Max (id_t ` set (transactions self))) + 1
   \<and> transactions (snd (add_transaction ty amt cat descr tg now self)) =
       transactions self @ [fst (add_transaction ty amt cat descr tg now self)]
   \<and> id_t (fst (add_transaction ty amt cat descr tg now self)) \<notin> id_t ` set (transactions self)
   \<and> sorted_wrt (<) (map id_t (fst (add_all calls self)))
   \<and> distinct (map id_t (fst (add_all calls self)))"
proof -
  have "id_t (fst (add_transaction ty amt cat descr tg now self)) \<notin> id_t ` set (transactions self)"
    by (auto dest: get_next_id_greater)
  moreover have "sorted_wrt (<) (map id_t (fst (add_all calls self)))"
    by (simp add: add_all_ids sorted_wrt_map sorted_wrt_upt)
  moreover have "distinct (map id_t (fst (add_all calls self)))"
    by (simp add: add_all_ids distinct_map inj_on_def)
  ultimately show ?thesis
    by (simp add: get_next_id_eq)
qed



section \<open>Deleting a transaction\<close>

text \<open>
  Claim C5. For every ledger state and every id, \<^verbatim>\<open>delete_transaction\<close> leaves exactly
  the transactions with another id, in their order, so no transaction with the id is left;
  the budget limits are as before. When no transaction has the id the list is unchanged
  and nothing is raised. A second call with the same id leaves the state of the first call,
  the list and the file included.
\<close>

theorem delete_transaction_correct:
  "transactions (delete_transaction i self) = filter (\<lambda>t. id_t t \<noteq> i) (transactions self)
   \<and> i \<notin> id_t ` set (transactions (delete_transaction i self))
   \<and> budget_limits (delete_transaction i self) = budget_limits self
   \<and> (i \<notin> id_t ` set (transactions self) \<longrightarrow>
        transactions (delete_transaction i self) = transactions self)
   \<and> delete_transaction i (delete_transaction i self) = delete_transaction i self"
proof -
  have "i \<notin> id_t ` set (transactions self) \<longrightarrow>
        filter (\<lambda>t. id_t t \<noteq> i) (transactions self) = transactions self"
    by (auto simp: filter_id_conv)
  then show ?thesis
    by (auto simp: delete_transaction_def save_data_def)
qed

theorem delete_transaction_correct_witness:
  "transactions (delete_transaction 9 demo) = transactions demo
   \<and> map id_t (transactions (delete_transaction 3 demo)) = [1, 2, 4, 5]"
proof -
  have absent: "9 \<notin> id_t ` set (transactions demo)"
    by (simp add: demo_def)
  from delete_transaction_correct [of 9 demo] absent
  have "transactions (delete_transaction 9 demo) = transactions demo"
    by blast
  moreover from delete_transaction_correct [of 3 demo]
  have "transactions (delete_transaction 3 demo) = filter (\<lambda>t. id_t t \<noteq> 3) (transactions demo)"
    by blast
  then have "map id_t (transactions (delete_transaction 3 demo)) = [1, 2, 4, 5]"
    by (simp add: demo_def)
  ultimately show ?thesis by simp
qed


section \<open>Search\<close>

text \<open>
  The loop appends each transaction at most once: when the mode looks at descriptions and
  the description matches, or else when the mode looks at tags and a tag matches.
\<close>

lemma search_loop_eq:
  "search_loop query search_type ts results =
     results @ filter (\<lambda>t. (search_type \<in> {''all'', ''description''} \<and> description_matches query t)
                          \<or> (search_type \<in> {''all'', ''tags''} \<and> tags_match query t)) ts"
  by (induction ts arbitrary: results)
    (auto simp: description_matches_def tags_match_def list_ex_iff)

text \<open>
  Evaluation on the second example ledger. The query \<^verbatim>\<open>restaurant\<close> in mode
  \<^verbatim>\<open>description\<close> finds the description \<^verbatim>\<open>Restaurant dinner\<close> and not the transaction
  that only carries the tag; the transaction that matches in both fields is listed once
  in mode \<^verbatim>\<open>all\<close>.
\<close>

lemma lower_char_simps [simp]:
  "lower_char CHR ''R'' = CHR ''r''" "lower_char CHR ''T'' = CHR ''t''"
  "lower_char CHR ''G'' = CHR ''g''" "lower_char CHR '' '' = CHR '' ''"
  "lower_char CHR ''a'' = CHR ''a''" "lower_char CHR ''c'' = CHR ''c''" 
  "lower_char CHR ''d'' = CHR ''d''" "lower_char CHR ''e'' = CHR ''e''"
  "lower_char CHR ''g'' = CHR ''g''" "lower_char CHR ''h'' = CHR ''h''"
  "lower_char CHR ''i'' = CHR ''i''" "lower_char CHR ''k'' = CHR ''k''"
  "lower_char CHR ''l'' = CHR ''l''" "lower_char CHR ''m'' = CHR ''m''"
  "lower_char CHR ''n'' = CHR ''n''" "lower_char CHR ''o'' = CHR ''o''"
  "lower_char CHR ''p'' = CHR ''p''" "lower_char CHR ''r'' = CHR ''r''"
  "lower_char CHR ''s'' = CHR ''s''" "lower_char CHR ''t'' = CHR ''t''"
  "lower_char CHR ''u'' = CHR ''u''" "lower_char CHR ''w'' = CHR ''w''"
  by (simp_all add: lower_char_def is_upper_def char_of_def bit_Suc_0_iff)

lemma diners_search:
  "map id_t (fst (search_transactions ''restaurant'' ''description'' diners)) = [1, 3]"
  "map id_t (fst (search_transactions ''restaurant'' ''tags'' diners)) = [2, 3]"
  "map id_t (fst (search_transactions ''restaurant'' ''all'' diners)) = [1, 2, 3]"
  by (simp_all add: search_transactions_def diners_def lower_def sublist_code)

text \<open>
  Lower-casing makes two characters equal exactly when they are the same letter, and two
  texts equal exactly when they are equal ignoring case. So the test of the loop,
  containment of the lower-cased query in the lower-cased text, is containment ignoring
  case.
\<close>

lemma of_char_lower_char:
  "(of_char (lower_char c) :: nat) = (if is_upper c then of_char c + 32 else of_char c)"
  by (auto simp: lower_char_def is_upper_def Let_def)

lemma lower_char_eq_iff: "lower_char c = lower_char d \<longleftrightarrow> same_letter c d"
proof -
  have "lower_char c = lower_char d \<longleftrightarrow> (of_char (lower_char c) :: nat) = of_char (lower_char d)"
    by simp
  also have "\<dots> \<longleftrightarrow> same_letter c d"
    unfolding of_char_lower_char same_letter_def capital_of_def
    by (auto simp: is_upper_def Let_def)
  finally show ?thesis .
qed

lemma lower_eq_iff: "lower a = lower b \<longleftrightarrow> equal_ignoring_case a b"
proof -
  have "lower a = lower b \<longleftrightarrow> list_all2 (=) (map lower_char a) (map lower_char b)"
    by (simp add: lower_def list_all2_eq)
  also have "\<dots> \<longleftrightarrow> list_all2 (\<lambda>c d. lower_char c = lower_char d) a b"
    by (simp add: list_all2_map1 list_all2_map2)
  finally show ?thesis
    by (simp add: equal_ignoring_case_def lower_char_eq_iff)
qed

lemma contains_ignoring_case_iff:
  "contains_ignoring_case query s \<longleftrightarrow> sublist (lower query) (lower s)"
proof
  assume "contains_ignoring_case query s"
  then obtain before w after where s: "s = before @ w @ after" and w: "equal_ignoring_case query w"
    by (auto simp: contains_ignoring_case_def)
  from w have "lower query = lower w"
    by (simp add: lower_eq_iff)
  with s have "lower s = lower before @ lower query @ lower after"
    by (simp add: lower_def)
  then show "sublist (lower query) (lower s)"
    by (auto simp: sublist_def)
next
  assume "sublist (lower query) (lower s)"
  then obtain ps ss where "map lower_char s = ps @ (map lower_char query @ ss)"
    by (auto simp: sublist_def lower_def)
  then obtain before rest where s1: "s = before @ rest"
    and "map lower_char rest = map lower_char query @ ss"
    by (metis map_eq_append_conv)
  then obtain w after where s2: "rest = w @ after" and "map lower_char w = map lower_char query"
    by (metis map_eq_append_conv)
  then have "equal_ignoring_case query w"
    by (simp add: lower_eq_iff [symmetric] lower_def)
  with s1 s2 show "contains_ignoring_case query s"
    by (auto simp: contains_ignoring_case_def)
qed

text \<open>
  By the definition alone, without lower-casing: \<^verbatim>\<open>restaurant\<close> is contained in
  \<^verbatim>\<open>Restaurant dinner\<close>, and the word for a coffee house with a small e acute in the same
  word in capitals.
\<close>

lemma capital_matches:
  "contains_ignoring_case ''restaurant'' ''Restaurant dinner''"
  "contains_ignoring_case (''caf'' @ [CHR 0xE9]) (''CAF'' @ [CHR 0xC9] @ '' Central'')"
proof -
  have "''Restaurant dinner'' = [] @ ''Restaurant'' @ '' dinner''"
    by simp
  moreover have "equal_ignoring_case ''restaurant'' ''Restaurant''"
    by (simp add: equal_ignoring_case_def same_letter_def capital_of_def)
  ultimately show "contains_ignoring_case ''restaurant'' ''Restaurant dinner''"
    unfolding contains_ignoring_case_def by blast
  have "''CAF'' @ [CHR 0xC9] @ '' Central'' = [] @ (''CAF'' @ [CHR 0xC9]) @ '' Central''"
    by simp
  moreover have "equal_ignoring_case (''caf'' @ [CHR 0xE9]) (''CAF'' @ [CHR 0xC9])"
    by (simp add: equal_ignoring_case_def same_letter_def capital_of_def)
  ultimately show "contains_ignoring_case (''caf'' @ [CHR 0xE9]) (''CAF'' @ [CHR 0xC9] @ '' Central'')"
    unfolding contains_ignoring_case_def by blast
qed

lemma lower_cafe [simp]:
  "lower_char CHR ''C'' = CHR ''c''" "lower_char CHR ''A'' = CHR ''a''"
  "lower_char CHR ''F'' = CHR ''f''" "lower_char CHR ''B'' = CHR ''b''"
  "lower_char CHR ''y'' = CHR ''y''" "lower_char CHR ''f'' = CHR ''f''"
  "lower_char (CHR 0xC9) = CHR 0xE9" "lower_char (CHR 0xE9) = CHR 0xE9"
  by (simp_all add: lower_char_def is_upper_def char_of_def bit_Suc_0_iff)

text \<open>
  Claim C6. For every ledger state and query, \<^verbatim>\<open>search_transactions\<close> returns in mode
  \<^verbatim>\<open>description\<close> the transactions whose description contains the query
  case-insensitively, in mode \<^verbatim>\<open>tags\<close> those with a tag that does, and in mode
  \<^verbatim>\<open>all\<close> those for which one or the other holds. The result is the list of the ledger
  filtered: the matches in the order of the ledger, each as often as the ledger has it.
  Texts are over the characters below 256.
\<close>

theorem search_transactions_correct:
  "fst (search_transactions query ''description'' self) =
     filter (\<lambda>t. contains_ignoring_case query (description t)) (transactions self)
   \<and> fst (search_transactions query ''tags'' self) =
     filter (\<lambda>t. \<exists>tag\<in>set (tags t). contains_ignoring_case query tag) (transactions self)
   \<and> fst (search_transactions query ''all'' self) =
     filter (\<lambda>t. contains_ignoring_case query (description t)
                \<or> (\<exists>tag\<in>set (tags t). contains_ignoring_case query tag)) (transactions self)"
  by (simp add: search_transactions_def search_loop_eq description_matches_def tags_match_def
      contains_ignoring_case_iff)

theorem search_transactions_correct_witness:
  "map id_t (fst (search_transactions ''restaurant'' ''description'' diners)) = [1, 3]
   \<and> map id_t (fst (search_transactions ''restaurant'' ''tags'' diners)) = [2, 3]
   \<and> map id_t (fst (search_transactions ''restaurant'' ''all'' diners)) = [1, 2, 3]
   \<and> map id_t (fst (search_transactions (''caf'' @ [CHR 0xE9]) ''all'' cafes)) = [1, 2]"
proof -
  note at_diners = search_transactions_correct [of "''restaurant''" diners]
  from at_diners [THEN conjunct1]
  have d: "map id_t (fst (search_transactions ''restaurant'' ''description'' diners)) = [1, 3]"
    by (simp add: diners_def contains_ignoring_case_iff lower_def sublist_code)
  from at_diners [THEN conjunct2, THEN conjunct1]
  have t: "map id_t (fst (search_transactions ''restaurant'' ''tags'' diners)) = [2, 3]"
    by (simp add: diners_def contains_ignoring_case_iff lower_def sublist_code)
  from at_diners [THEN conjunct2, THEN conjunct2]
  have a: "map id_t (fst (search_transactions ''restaurant'' ''all'' diners)) = [1, 2, 3]"
    by (simp add: diners_def contains_ignoring_case_iff lower_def sublist_code)
  from search_transactions_correct [of "''caf'' @ [CHR 0xE9]" cafes, THEN conjunct2, THEN conjunct2]
  have c: "map id_t (fst (search_transactions (''caf'' @ [CHR 0xE9]) ''all'' cafes)) = [1, 2]"
    by (simp add: cafes_def contains_ignoring_case_iff lower_def sublist_code)
  from d t a c show ?thesis
    by (intro conjI)
qed


text \<open>
  Claim C10. With a mode other than \<^verbatim>\<open>all\<close>, \<^verbatim>\<open>description\<close> and \<^verbatim>\<open>tags\<close>,
  \<^verbatim>\<open>search_transactions\<close> returns the empty list for every ledger and query.
\<close>

theorem search_transactions_unknown_mode:
  assumes "search_type \<notin> {''all'', ''description'', ''tags''}"
  shows "fst (search_transactions query search_type self) = []"
  using assms by (simp add: search_transactions_def search_loop_eq)

theorem search_transactions_unknown_mode_witness:
  "fst (search_transactions ''restaurant'' ''category'' diners) = []"
proof -
  have "''category'' \<notin> {''all'', ''description'', ''tags''}"
    by simp
  then show ?thesis
    by (rule search_transactions_unknown_mode)
qed

section \<open>The queries leave the state as it is\<close>

text \<open>The monthly summary of the example ledger.\<close>

lemma summary_example:
  "fst (get_monthly_summary demo) =
     [''2024-03'' \<mapsto> \<lparr>income = 5500, expenses = 225\<rparr>, ''2024-04'' \<mapsto> \<lparr>income = 0, expenses = 50\<rparr>]"
  by (simp add: get_monthly_summary_def demo_def dict_get_def)


text \<open>
  Claim C9. \<^verbatim>\<open>get_category_spending\<close>, \<^verbatim>\<open>check_budget_alerts\<close>,
  \<^verbatim>\<open>calculate_profit_loss\<close>, \<^verbatim>\<open>get_monthly_summary\<close> and \<^verbatim>\<open>search_transactions\<close>
  return the state they were called on: the transactions, the budget limits and the file
  are unchanged, also when the method raises.
\<close>

theorem queries_leave_ledger:
  "snd (get_category_spending month_arg self) = self
   \<and> snd (check_budget_alerts month_arg self) = self
   \<and> snd (calculate_profit_loss month_arg self) = self
   \<and> snd (get_monthly_summary self) = self
   \<and> snd (search_transactions query search_type self) = self"
  by (simp add: get_category_spending_def check_budget_alerts_def calculate_profit_loss_def
      get_monthly_summary_def search_transactions_def Let_def split: sum.splits prod.splits)



section \<open>Saving and loading\<close>

text \<open>
  Reading back what \<^verbatim>\<open>save_data\<close> wrote: every item gives its transaction, the items
  give the list, and the object of the limits gives the limits.
\<close>

lemma TransactionType_of_type_value [simp]: "TransactionType_of (JStr (type_value ty)) = Inr ty"
  by (cases ty) (simp_all add: TransactionType_of_def)

lemma strs_of_jsons_JStr [simp]: "strs_of_jsons (map JStr ss) = Some ss"
  by (induction ss) simp_all

lemma transaction_of_item_of [simp]: "transaction_of (item_of t) = Inr t"
  by (simp add: transaction_of_def item_of_def subscript_def dict_get_def)

lemma transactions_of_items [simp]: "transactions_of (map item_of ts) = Inr ts"
  by (induction ts) simp_all

lemma limits_of_limits_json [simp]: "limits_of_json (limits_json limits) = Some limits"
proof -
  have "limits_of_items (map (\<lambda>(k, v). (k, JFloat v)) limits) = Some limits"
    by (induction limits) auto
  then show ?thesis
    by (simp add: limits_json_def)
qed

lemma load_data_saved:
  "data_file other = data_file (save_data self) \<Longrightarrow>
   load_data other =
     (Inr (), other\<lparr>transactions := transactions self, budget_limits := budget_limits self\<rparr>)"
  by (simp add: load_data_def save_data_def dict_get_def)

text \<open>
  Claim C7. For every ledger state, \<^verbatim>\<open>load_data\<close> on the file \<^verbatim>\<open>save_data\<close> wrote
  succeeds, whatever the object held before, and leaves the transactions that were saved
  (the same records in the same order) and the budget limits that were saved, equal as
  lists and so as mappings. Loading into the saved object itself changes nothing.
\<close>

theorem save_load_roundtrip:
  "fst (load_data (other\<lparr>data_file := data_file (save_data self)\<rparr>)) = Inr ()
   \<and> transactions (snd (load_data (other\<lparr>data_file := data_file (save_data self)\<rparr>))) =
       transactions self
   \<and> budget_limits (snd (load_data (other\<lparr>data_file := data_file (save_data self)\<rparr>))) =
       budget_limits self
   \<and> map_of (budget_limits (snd (load_data (other\<lparr>data_file := data_file (save_data self)\<rparr>)))) =
       map_of (budget_limits self)
   \<and> load_data (save_data self) = (Inr (), save_data self)"
proof -
  have "load_data (save_data self) = (Inr (), save_data self)"
    by (simp add: load_data_saved [of "save_data self" self]) (simp add: save_data_def)
  then show ?thesis
    by (simp add: load_data_saved [of "other\<lparr>data_file := data_file (save_data self)\<rparr>" self])
qed

text \<open>
  An item with an id and a type that is neither \<^verbatim>\<open>income\<close> nor \<^verbatim>\<open>expense\<close> raises
  \<^verbatim>\<open>ValueError\<close>. An exception of an item is an exception of the list: the one of the
  first item that raises.
\<close>

lemma transaction_of_unknown_type:
  assumes "map_of kvs ''id'' = Some i" "map_of kvs ''type'' = Some v"
    "v \<noteq> JStr ''income''" "v \<noteq> JStr ''expense''"
  shows "transaction_of (JObj kvs) = Inl ValueError"
  using assms by (simp add: transaction_of_def subscript_def TransactionType_of_def)

lemma transactions_of_raises:
  assumes "item \<in> set items" "transaction_of item = Inl e" "e \<noteq> Unmodelled"
  shows "\<exists>e'. e' \<noteq> Unmodelled \<and> transactions_of items = Inl e'"
  using assms
proof (induction items)
  case Nil
  then show ?case by simp
next
  case (Cons x items)
  show ?case
  proof (cases "x = item")
    case True
    with Cons.prems show ?thesis by simp
  next
    case False
    with Cons.prems Cons.IH obtain e' where "e' \<noteq> Unmodelled" "transactions_of items = Inl e'"
      by auto
    then show ?thesis
      by (auto split: sum.splits)
  qed
qed

lemma transactions_of_first_error:
  assumes "transactions_of pre = Inr ts" "transaction_of item = Inl e" "e \<noteq> Unmodelled"
  shows "transactions_of (pre @ item # post) = Inl e"
  using assms
  by (induction pre arbitrary: ts) (auto split: sum.splits if_splits)

lemma load_data_error_state: "fst (load_data self) = Inl e \<Longrightarrow> snd (load_data self) = self"
  by (auto simp: load_data_def split: option.splits file_content.splits json.splits sum.splits)

text \<open>The items of the example documents that load.\<close>

lemma first_item:
  "transactions_of
     [JObj [(''id'', JInt 1), (''type'', JStr ''income''), (''amount'', JInt 5000),
            (''category'', JStr ''Salary''), (''description'', JStr ''Monthly salary''),
            (''date'', JStr ''2024-03-01''), (''tags'', JArr [JStr ''salary''])]] =
   Inr [\<lparr>id_t = 1, type = INCOME, amount = 5000, category = ''Salary'',
         description = ''Monthly salary'', date = ''2024-03-01'', tags = [''salary'']\<rparr>]"
  by (simp add: transaction_of_def subscript_def TransactionType_of_def dict_get_def)

lemma lunch_item:
  "transactions_of
     [JObj [(''id'', JInt 7), (''type'', JStr ''expense''), (''amount'', JFloat 12.5),
            (''category'', JStr ''Food''), (''description'', JStr ''Lunch''),
            (''date'', JStr ''2024-03-16'')]] =
   Inr [\<lparr>id_t = 7, type = EXPENSE, amount = 12.5, category = ''Food'',
         description = ''Lunch'', date = ''2024-03-16'', tags = []\<rparr>]"
  by (simp add: transaction_of_def subscript_def TransactionType_of_def dict_get_def)

text \<open>
  Claim C8. \<^verbatim>\<open>load_data\<close> on a missing file gives the empty ledger and no error. A
  document without the key \<^verbatim>\<open>transactions\<close> or without the key \<^verbatim>\<open>budget_limits\<close>
  gives the empty collection for it. Text that does not parse raises
  \<^verbatim>\<open>JSONDecodeError\<close>, a document that is no object raises \<^verbatim>\<open>AttributeError\<close>, and an
  item with an unknown type makes the load raise (\<^verbatim>\<open>ValueError\<close> when the items before
  it are sound). Whenever the load raises, the object is as it was before the call:
  nothing is loaded in part.
\<close>

theorem load_data_failures:
  "(data_file self = None \<longrightarrow>
      load_data self = (Inr (), self\<lparr>transactions := [], budget_limits := []\<rparr>))
   \<and> (data_file self = Some (Document (JObj kvs)) \<and> map_of kvs ''transactions'' = None
        \<and> map_of kvs ''budget_limits'' = None \<longrightarrow>
      load_data self = (Inr (), self\<lparr>transactions := [], budget_limits := []\<rparr>))
   \<and> (data_file self = Some (Document (JObj kvs)) \<and> map_of kvs ''transactions'' = None
        \<and> map_of kvs ''budget_limits'' = Some limits_v \<and> limits_of_json limits_v = Some limits \<longrightarrow>
      load_data self = (Inr (), self\<lparr>transactions := [], budget_limits := limits\<rparr>))
   \<and> (data_file self = Some (Document (JObj kvs))
        \<and> map_of kvs ''transactions'' = Some transactions_v
        \<and> iterate transactions_v = Inr items' \<and> transactions_of items' = Inr ts
        \<and> map_of kvs ''budget_limits'' = None \<longrightarrow>
      load_data self = (Inr (), self\<lparr>transactions := ts, budget_limits := []\<rparr>))
   \<and> (data_file self = Some Unparseable \<longrightarrow> load_data self = (Inl JSONDecodeError, self))
   \<and> (data_file self = Some (Document doc) \<and> (\<forall>kvs'. doc \<noteq> JObj kvs') \<longrightarrow>
      load_data self = (Inl AttributeError, self))
   \<and> (data_file self = Some (Document (JObj kvs)) \<and> map_of kvs ''transactions'' = Some (JArr items)
        \<and> JObj item \<in> set items \<and> map_of item ''id'' = Some i \<and> map_of item ''type'' = Some v
        \<and> v \<noteq> JStr ''income'' \<and> v \<noteq> JStr ''expense'' \<longrightarrow>
      (\<exists>e. e \<noteq> Unmodelled \<and> load_data self = (Inl e, self)))
   \<and> (data_file self = Some (Document (JObj kvs))
        \<and> map_of kvs ''transactions'' = Some (JArr (before @ JObj item # rest))
        \<and> transactions_of before = Inr ts'
        \<and> map_of item ''id'' = Some i \<and> map_of item ''type'' = Some v
        \<and> v \<noteq> JStr ''income'' \<and> v \<noteq> JStr ''expense'' \<longrightarrow>
      load_data self = (Inl ValueError, self))
   \<and> (fst (load_data self) = Inl e \<longrightarrow> snd (load_data self) = self)"
proof -
  have missing: "data_file self = None \<longrightarrow>
      load_data self = (Inr (), self\<lparr>transactions := [], budget_limits := []\<rparr>)"
    by (simp add: load_data_def)
  have no_keys: "data_file self = Some (Document (JObj kvs)) \<and> map_of kvs ''transactions'' = None
        \<and> map_of kvs ''budget_limits'' = None \<longrightarrow>
      load_data self = (Inr (), self\<lparr>transactions := [], budget_limits := []\<rparr>)"
    by (simp add: load_data_def dict_get_def)
  have no_transactions: "data_file self = Some (Document (JObj kvs)) \<and> map_of kvs ''transactions'' = None
        \<and> map_of kvs ''budget_limits'' = Some limits_v \<and> limits_of_json limits_v = Some limits \<longrightarrow>
      load_data self = (Inr (), self\<lparr>transactions := [], budget_limits := limits\<rparr>)"
    by (simp add: load_data_def dict_get_def)
  have no_limits: "data_file self = Some (Document (JObj kvs))
        \<and> map_of kvs ''transactions'' = Some transactions_v
        \<and> iterate transactions_v = Inr items' \<and> transactions_of items' = Inr ts
        \<and> map_of kvs ''budget_limits'' = None \<longrightarrow>
      load_data self = (Inr (), self\<lparr>transactions := ts, budget_limits := []\<rparr>)"
    by (simp add: load_data_def dict_get_def)
  have unparseable: "data_file self = Some Unparseable \<longrightarrow> load_data self = (Inl JSONDecodeError, self)"
    by (simp add: load_data_def)
  have no_dict: "data_file self = Some (Document doc) \<and> (\<forall>kvs'. doc \<noteq> JObj kvs') \<longrightarrow>
      load_data self = (Inl AttributeError, self)"
    by (cases doc) (simp_all add: load_data_def)
  have unknown: "data_file self = Some (Document (JObj kvs)) \<and> map_of kvs ''transactions'' = Some (JArr items)
        \<and> JObj item \<in> set items \<and> map_of item ''id'' = Some i \<and> map_of item ''type'' = Some v
        \<and> v \<noteq> JStr ''income'' \<and> v \<noteq> JStr ''expense'' \<longrightarrow>
      (\<exists>e. e \<noteq> Unmodelled \<and> load_data self = (Inl e, self))"
  proof (intro impI, elim conjE)
    assume f: "data_file self = Some (Document (JObj kvs))"
      and t: "map_of kvs ''transactions'' = Some (JArr items)"
      and m: "JObj item \<in> set items"
      and k: "map_of item ''id'' = Some i" "map_of item ''type'' = Some v"
        "v \<noteq> JStr ''income''" "v \<noteq> JStr ''expense''"
    from k have "transaction_of (JObj item) = Inl ValueError"
      by (rule transaction_of_unknown_type)
    with m obtain e where "e \<noteq> Unmodelled" "transactions_of items = Inl e"
      using transactions_of_raises [of "JObj item" items ValueError] by auto
    with f t show "\<exists>e. e \<noteq> Unmodelled \<and> load_data self = (Inl e, self)"
      by (simp add: load_data_def dict_get_def)
  qed
  have first_unknown: "data_file self = Some (Document (JObj kvs))
        \<and> map_of kvs ''transactions'' = Some (JArr (before @ JObj item # rest))
        \<and> transactions_of before = Inr ts'
        \<and> map_of item ''id'' = Some i \<and> map_of item ''type'' = Some v
        \<and> v \<noteq> JStr ''income'' \<and> v \<noteq> JStr ''expense'' \<longrightarrow>
      load_data self = (Inl ValueError, self)"
  proof (intro impI, elim conjE)
    assume f: "data_file self = Some (Document (JObj kvs))"
      and t: "map_of kvs ''transactions'' = Some (JArr (before @ JObj item # rest))"
      and b: "transactions_of before = Inr ts'"
      and k: "map_of item ''id'' = Some i" "map_of item ''type'' = Some v"
        "v \<noteq> JStr ''income''" "v \<noteq> JStr ''expense''"
    from k have "transaction_of (JObj item) = Inl ValueError"
      by (rule transaction_of_unknown_type)
    with b have "transactions_of (before @ JObj item # rest) = Inl ValueError"
      by (intro transactions_of_first_error [of _ ts']) simp_all
    with f t show "load_data self = (Inl ValueError, self)"
      by (simp add: load_data_def dict_get_def)
  qed
  have state: "fst (load_data self) = Inl e \<longrightarrow> snd (load_data self) = self"
    by (simp add: load_data_error_state)
  from missing no_keys no_transactions no_limits unparseable no_dict unknown first_unknown state
  show ?thesis
    by (intro conjI)
qed


theorem load_data_failures_witness:
  "load_data demo = (Inr (), demo\<lparr>transactions := [], budget_limits := []\<rparr>)
   \<and> load_data (demo\<lparr>data_file := Some keyless_file\<rparr>) =
       (Inr (), demo\<lparr>data_file := Some keyless_file, transactions := [], budget_limits := []\<rparr>)
   \<and> load_data (demo\<lparr>data_file := Some limits_only_file\<rparr>) =
       (Inr (), demo\<lparr>data_file := Some limits_only_file, transactions := [],
                     budget_limits := [(''Food'', 300)]\<rparr>)
   \<and> load_data (demo\<lparr>data_file := Some transactions_only_file\<rparr>) =
       (Inr (), demo\<lparr>data_file := Some transactions_only_file,
                     transactions := [\<lparr>id_t = 7, type = EXPENSE, amount = 12.5, category = ''Food'',
                        description = ''Lunch'', date = ''2024-03-16'', tags = []\<rparr>],
                     budget_limits := []\<rparr>)
   \<and> load_data (demo\<lparr>data_file := Some Unparseable\<rparr>) =
       (Inl JSONDecodeError, demo\<lparr>data_file := Some Unparseable\<rparr>)
   \<and> load_data (demo\<lparr>data_file := Some list_file\<rparr>) =
       (Inl AttributeError, demo\<lparr>data_file := Some list_file\<rparr>)
   \<and> (\<exists>e. e \<noteq> Unmodelled
          \<and> load_data (demo\<lparr>data_file := Some unknown_kind_file\<rparr>) =
              (Inl e, demo\<lparr>data_file := Some unknown_kind_file\<rparr>))
   \<and> load_data (demo\<lparr>data_file := Some unknown_kind_file\<rparr>) =
       (Inl ValueError, demo\<lparr>data_file := Some unknown_kind_file\<rparr>)
   \<and> snd (load_data (demo\<lparr>data_file := Some unknown_kind_file\<rparr>)) =
       demo\<lparr>data_file := Some unknown_kind_file\<rparr>"
proof -
  have "data_file demo = None"
    by (simp add: demo_def)
  with load_data_failures [where self = demo,
      THEN conjunct1]
  have missing: "load_data demo = (Inr (), demo\<lparr>transactions := [], budget_limits := []\<rparr>)"
    by simp
  have "data_file (demo\<lparr>data_file := Some keyless_file\<rparr>) = Some (Document (JObj []))"
    "map_of ([] :: (string \<times> json) list) ''transactions'' = None"
    "map_of ([] :: (string \<times> json) list) ''budget_limits'' = None"
    by (simp_all add: keyless_file_def)
  with load_data_failures [where self = "demo\<lparr>data_file := Some keyless_file\<rparr>" and kvs = "[]",
      THEN conjunct2, THEN conjunct1]
  have keyless: "load_data (demo\<lparr>data_file := Some keyless_file\<rparr>) =
       (Inr (), demo\<lparr>data_file := Some keyless_file, transactions := [], budget_limits := []\<rparr>)"
    by simp
  let ?lkvs = "[(''budget_limits'', JObj [(''Food'', JInt 300)])]"
  have "data_file (demo\<lparr>data_file := Some limits_only_file\<rparr>) = Some (Document (JObj ?lkvs))"
    "map_of ?lkvs ''transactions'' = None"
    "map_of ?lkvs ''budget_limits'' = Some (JObj [(''Food'', JInt 300)])"
    "limits_of_json (JObj [(''Food'', JInt 300)]) = Some [(''Food'', 300)]"
    by (simp_all add: limits_only_file_def)
  with load_data_failures [where self = "demo\<lparr>data_file := Some limits_only_file\<rparr>"
      and kvs = ?lkvs and limits_v = "JObj [(''Food'', JInt 300)]" and limits = "[(''Food'', 300)]",
      THEN conjunct2, THEN conjunct2, THEN conjunct1]
  have limits_only: "load_data (demo\<lparr>data_file := Some limits_only_file\<rparr>) =
       (Inr (), demo\<lparr>data_file := Some limits_only_file, transactions := [],
                     budget_limits := [(''Food'', 300)]\<rparr>)"
    by simp
  let ?lunch = "[JObj [(''id'', JInt 7), (''type'', JStr ''expense''), (''amount'', JFloat 12.5),
                     (''category'', JStr ''Food''), (''description'', JStr ''Lunch''),
                     (''date'', JStr ''2024-03-16'')]]"
  let ?tkvs = "[(''transactions'', JArr ?lunch)]"
  have "data_file (demo\<lparr>data_file := Some transactions_only_file\<rparr>) = Some (Document (JObj ?tkvs))"
    "map_of ?tkvs ''transactions'' = Some (JArr ?lunch)"
    "iterate (JArr ?lunch) = Inr ?lunch"
    "map_of ?tkvs ''budget_limits'' = None"
    by (simp_all add: transactions_only_file_def)
  with lunch_item
    load_data_failures [where self = "demo\<lparr>data_file := Some transactions_only_file\<rparr>"
      and kvs = ?tkvs and transactions_v = "JArr ?lunch" and items' = ?lunch
      and ts = "[\<lparr>id_t = 7, type = EXPENSE, amount = 12.5, category = ''Food'',
                  description = ''Lunch'', date = ''2024-03-16'', tags = []\<rparr>]",
      THEN conjunct2, THEN conjunct2, THEN conjunct2, THEN conjunct1]
  have transactions_only: "load_data (demo\<lparr>data_file := Some transactions_only_file\<rparr>) =
       (Inr (), demo\<lparr>data_file := Some transactions_only_file,
                     transactions := [\<lparr>id_t = 7, type = EXPENSE, amount = 12.5, category = ''Food'',
                        description = ''Lunch'', date = ''2024-03-16'', tags = []\<rparr>],
                     budget_limits := []\<rparr>)"
    by simp
  from load_data_failures [where self = "demo\<lparr>data_file := Some Unparseable\<rparr>",
      THEN conjunct2, THEN conjunct2, THEN conjunct2, THEN conjunct2, THEN conjunct1]
  have unparseable: "load_data (demo\<lparr>data_file := Some Unparseable\<rparr>) =
       (Inl JSONDecodeError, demo\<lparr>data_file := Some Unparseable\<rparr>)"
    by simp
  from load_data_failures [where self = "demo\<lparr>data_file := Some list_file\<rparr>" and doc = "JArr []",
      THEN conjunct2, THEN conjunct2, THEN conjunct2, THEN conjunct2, THEN conjunct2,
      THEN conjunct1]
  have no_dict: "load_data (demo\<lparr>data_file := Some list_file\<rparr>) =
       (Inl AttributeError, demo\<lparr>data_file := Some list_file\<rparr>)"
    by (simp add: list_file_def)
  let ?first = "[JObj [(''id'', JInt 1), (''type'', JStr ''income''), (''amount'', JInt 5000),
                     (''category'', JStr ''Salary''), (''description'', JStr ''Monthly salary''),
                     (''date'', JStr ''2024-03-01''), (''tags'', JArr [JStr ''salary''])]]"
  let ?item = "[(''id'', JInt 2), (''type'', JStr ''transfer''), (''amount'', JInt 40),
                (''category'', JStr ''Food''), (''description'', JStr ''Team lunch''),
                (''date'', JStr ''2024-03-16'')]"
  let ?kvs = "[(''transactions'', JArr (?first @ JObj ?item # [])),
               (''budget_limits'', JObj [(''Food'', JInt 300)])]"
  have "data_file (demo\<lparr>data_file := Some unknown_kind_file\<rparr>) = Some (Document (JObj ?kvs))"
    "map_of ?kvs ''transactions'' = Some (JArr (?first @ JObj ?item # []))"
    "map_of ?item ''id'' = Some (JInt 2)" "map_of ?item ''type'' = Some (JStr ''transfer'')"
    "JStr ''transfer'' \<noteq> JStr ''income''" "JStr ''transfer'' \<noteq> JStr ''expense''"
    by (simp_all add: unknown_kind_file_def)
  note doc_facts = this
  have "JObj ?item \<in> set (?first @ JObj ?item # [])"
    by simp
  with doc_facts
    load_data_failures [where self = "demo\<lparr>data_file := Some unknown_kind_file\<rparr>"
      and kvs = ?kvs and items = "?first @ JObj ?item # []" and item = ?item and i = "JInt 2"
      and v = "JStr ''transfer''",
      THEN conjunct2, THEN conjunct2, THEN conjunct2, THEN conjunct2, THEN conjunct2,
      THEN conjunct2, THEN conjunct1]
  have somewhere: "\<exists>e. e \<noteq> Unmodelled
          \<and> load_data (demo\<lparr>data_file := Some unknown_kind_file\<rparr>) =
              (Inl e, demo\<lparr>data_file := Some unknown_kind_file\<rparr>)"
    by blast
  from doc_facts first_item
    load_data_failures [where self = "demo\<lparr>data_file := Some unknown_kind_file\<rparr>"
      and kvs = ?kvs and before = ?first and item = ?item and rest = "[]" and i = "JInt 2"
      and v = "JStr ''transfer''"
      and ts' = "[\<lparr>id_t = 1, type = INCOME, amount = 5000, category = ''Salary'',
         description = ''Monthly salary'', date = ''2024-03-01'', tags = [''salary'']\<rparr>]",
      THEN conjunct2, THEN conjunct2, THEN conjunct2, THEN conjunct2, THEN conjunct2,
      THEN conjunct2, THEN conjunct2, THEN conjunct1]
  have unknown: "load_data (demo\<lparr>data_file := Some unknown_kind_file\<rparr>) =
       (Inl ValueError, demo\<lparr>data_file := Some unknown_kind_file\<rparr>)"
    by simp
  then have "fst (load_data (demo\<lparr>data_file := Some unknown_kind_file\<rparr>)) = Inl ValueError"
    by simp
  with load_data_failures [where self = "demo\<lparr>data_file := Some unknown_kind_file\<rparr>"
      and e = ValueError,
      THEN conjunct2, THEN conjunct2, THEN conjunct2, THEN conjunct2, THEN conjunct2,
      THEN conjunct2, THEN conjunct2, THEN conjunct2]
  have state: "snd (load_data (demo\<lparr>data_file := Some unknown_kind_file\<rparr>)) =
       demo\<lparr>data_file := Some unknown_kind_file\<rparr>"
    by blast
  from missing keyless limits_only transactions_only unparseable no_dict somewhere unknown state
  show ?thesis
    by (intro conjI)
qed


section \<open>The dates the ledger writes are dates it reads\<close>

text \<open>
  The decimal digits of a number: the last digit and the rest, and the numbers of four and of
  two digits.
\<close>

lemma two_digits:
  fixes m :: nat
  obtains a b where "m div 10 = a" "m mod 10 = b" "m = 10 * a + b" "b < 10"
  by (rule that [of "m div 10" "m mod 10"]) simp_all

lemma four_digits:
  assumes "(y::nat) \<le> 9999"
  shows "1000 * (y div 1000 mod 10) + 100 * (y div 100 mod 10) + 10 * (y div 10 mod 10) + y mod 10 = y"
proof -
  have h: "y div 100 = y div 10 div 10"
    using div_mult2_eq [of y 10 10] by simp
  have t: "y div 1000 = y div 100 div 10"
    using div_mult2_eq [of y 100 10] by simp
  from assms have a: "y div 1000 mod 10 = y div 1000"
    by simp
  have e1: "y = 10 * (y div 10) + y mod 10"
    by simp
  have e2: "y div 10 = 10 * (y div 100) + y div 10 mod 10"
    unfolding h by simp
  have e3: "y div 100 = 10 * (y div 1000) + y div 100 mod 10"
    unfolding t by simp
  from a e1 e2 e3 show ?thesis
    by linarith
qed

lemma two_digits_value:
  assumes "(m::nat) \<le> 99"
  shows "10 * (m div 10 mod 10) + m mod 10 = m"
proof -
  from assms have "m div 10 mod 10 = m div 10"
    by simp
  then show ?thesis
    by simp
qed

lemma month_digits:
  assumes "1 \<le> (m::nat)" "m \<le> 12"
  shows "(m div 10 mod 10 = 1 \<and> m mod 10 \<le> 2) \<or> (m div 10 mod 10 = 0 \<and> 1 \<le> m mod 10)"
proof -
  obtain a b where ab: "m div 10 = a" "m mod 10 = b" "m = 10 * a + b" "b < 10"
    by (rule two_digits)
  from assms ab(3) have "a = 0 \<or> a = 1"
    by linarith
  with assms ab(3) have "(a = 1 \<and> b \<le> 2) \<or> (a = 0 \<and> 1 \<le> b)"
    by auto
  then show ?thesis
    unfolding ab(1,2) by auto
qed

lemma day_digits:
  assumes "1 \<le> (d::nat)" "d \<le> 31"
  shows "(d div 10 mod 10 = 3 \<and> d mod 10 \<le> 1) \<or> d div 10 mod 10 = 1 \<or> d div 10 mod 10 = 2
      \<or> (d div 10 mod 10 = 0 \<and> 1 \<le> d mod 10)"
proof -
  obtain a b where ab: "d div 10 = a" "d mod 10 = b" "d = 10 * a + b" "b < 10"
    by (rule two_digits)
  from assms ab(3) have "a = 0 \<or> a = 1 \<or> a = 2 \<or> a = 3"
    by linarith
  with assms ab(3) have "(a = 3 \<and> b \<le> 1) \<or> a = 1 \<or> a = 2 \<or> (a = 0 \<and> 1 \<le> b)"
    by auto
  then show ?thesis
    unfolding ab(1,2) by auto
qed


lemma digit_of_nth: "k < 10 \<Longrightarrow> digit_of (''0123456789'' ! k) = Some k"
  by (auto simp: digit_of_def numeral_eq_Suc less_Suc_eq)

lemma digit_of_digit_char [simp]: "digit_of (digit_char n) = Some (n mod 10)"
  by (simp add: digit_char_def digit_of_nth)

text \<open>
  What \<^verbatim>\<open>strftime("%Y-%m-%d")\<close> prints for a day of the clock is parsed by
  \<^verbatim>\<open>strptime\<close> to that day.
\<close>

lemma parse_Y_pad4: "y \<le> 9999 \<Longrightarrow> parse_Y (pad4 y @ rest) = Some (y, rest)"
  using four_digits [of y] by (simp add: pad4_def)

lemma parse_m_pad2:
  assumes "1 \<le> m" "m \<le> 12"
  shows "parse_m (pad2 m @ CHR ''-'' # rest) = Some (m, rest)"
proof -
  from assms have "10 * (m div 10 mod 10) + m mod 10 = m"
    by (intro two_digits_value) simp
  with month_digits [OF assms] show ?thesis
    by (simp add: parse_m_def pad2_def)
qed

lemma parse_d_pad2:
  assumes "1 \<le> d" "d \<le> 31"
  shows "parse_d (pad2 d) = Some d"
proof -
  from assms have "10 * (d div 10 mod 10) + d mod 10 = d"
    by (intro two_digits_value) simp
  with day_digits [OF assms] show ?thesis
    by (simp add: parse_d_def pad2_def)
qed

lemma days_in_month_le: "days_in_month y m \<le> 31"
  by (simp add: days_in_month_def)

lemma strptime_strftime_Ymd:
  assumes "clock_day d"
  shows "strptime (strftime_Ymd d) = Inr d"
proof -
  from assms have y: "1 \<le> year d" "year d \<le> 9999" and m: "1 \<le> month d" "month d \<le> 12"
    and dd: "1 \<le> day d" "day d \<le> days_in_month (year d) (month d)"
    by (simp_all add: clock_day_def)
  from dd(2) have d31: "day d \<le> 31"
    using days_in_month_le [of "year d" "month d"] by linarith
  have "strptime (pad4 (year d) @ CHR ''-'' # pad2 (month d) @ CHR ''-'' # pad2 (day d)) = Inr d"
    unfolding strptime_def using y(1) dd(2)
    by (simp add: parse_Y_pad4 [OF y(2)] parse_m_pad2 [OF m] parse_d_pad2 [OF dd(1) d31])
  moreover from assms have "strftime_Y (year d) = pad4 (year d)"
    by (simp add: strftime_Y_def clock_day_def)
  ultimately show ?thesis
    by (simp add: strftime_Ymd_def)
qed

lemma add_transaction_well_dated:
  "clock_day now \<Longrightarrow> well_dated (fst (add_transaction ty amt cat descr tg now self))"
  by (simp add: add_transaction_def Let_def well_dated_def strptime_strftime_Ymd)

text \<open>
  From a well dated ledger, \<^verbatim>\<open>add_transaction\<close> on a day of the clock adds a transaction
  whose date parses to that day, and \<^verbatim>\<open>delete_transaction\<close> and \<^verbatim>\<open>set_budget_limit\<close> add
  no transaction. So a ledger that starts empty and grows by these calls is well dated. A
  ledger from a file need not be: \<^verbatim>\<open>load_data\<close> stores the dates of the file.
\<close>

theorem well_dated_invariant:
  assumes "\<forall>t\<in>set (transactions self). well_dated t"
  shows "(clock_day now \<longrightarrow>
            strptime (date (fst (add_transaction ty amt cat descr tg now self))) = Inr now
          \<and> (\<forall>t\<in>set (transactions (snd (add_transaction ty amt cat descr tg now self))). well_dated t))
       \<and> (\<forall>t\<in>set (transactions (delete_transaction i self)). well_dated t)
       \<and> (\<forall>t\<in>set (transactions (set_budget_limit c l self)). well_dated t)"
  using assms
  by (auto simp: add_transaction_def Let_def save_data_def delete_transaction_def
      set_budget_limit_def well_dated_def strptime_strftime_Ymd)

theorem well_dated_invariant_witness:
  "strptime (date (fst (add_transaction EXPENSE 12 ''Food'' ''Lunch'' None
       \<lparr>year = 2024, month = 4, day = 3\<rparr> demo))) = Inr \<lparr>year = 2024, month = 4, day = 3\<rparr>
   \<and> date (fst (add_transaction EXPENSE 12 ''Food'' ''Lunch'' None
       \<lparr>year = 2024, month = 4, day = 3\<rparr> demo)) = ''2024-04-03''"
proof -
  have wd: "\<forall>t\<in>set (transactions demo). well_dated t"
    by (simp add: demo_def well_dated_def)
  have cd: "clock_day \<lparr>year = 2024, month = 4, day = 3\<rparr>"
    by (simp add: clock_day_def days_in_month_def)
  from well_dated_invariant [OF wd, THEN conjunct1, rule_format, OF cd, THEN conjunct1]
  have "strptime (date (fst (add_transaction EXPENSE 12 ''Food'' ''Lunch'' None
       \<lparr>year = 2024, month = 4, day = 3\<rparr> demo))) = Inr \<lparr>year = 2024, month = 4, day = 3\<rparr>" .
  moreover have "date (fst (add_transaction EXPENSE 12 ''Food'' ''Lunch'' None
       \<lparr>year = 2024, month = 4, day = 3\<rparr> demo)) = ''2024-04-03''"
    by (simp add: add_transaction_def Let_def strftime_Ymd_def strftime_Y_def pad4_def pad2_def
        digit_char_def)
  ultimately show ?thesis by simp
qed



section \<open>Monthly summary and budget limits\<close>

text \<open>
  The loop of the summary, started from any dict: a month with no transaction keeps its
  entry, any other month gets its entry (or zeros) plus the income and the expenses of
  the month.
\<close>

lemma summary_loop_eq:
  "summary_loop ts acc =
     (\<lambda>mo. if filter (in_month mo) ts = [] then acc mo
           else Some
             \<lparr>income = income (dict_get acc mo \<lparr>income = 0, expenses = 0\<rparr>)
                + sum_list (map amount (filter (\<lambda>t. in_month mo t \<and> type t = INCOME) ts)),
              expenses = expenses (dict_get acc mo \<lparr>income = 0, expenses = 0\<rparr>)
                + sum_list (map amount (filter (\<lambda>t. in_month mo t \<and> type t = EXPENSE) ts))\<rparr>)"
proof (induction ts arbitrary: acc)
  case Nil
  then show ?case by simp
next
  case (Cons t ts)
  have ty: "type t = INCOME \<or> type t = EXPENSE"
    by (cases "type t") simp_all
  then show ?case
    by (auto simp: Cons.IH Let_def fun_eq_iff dict_get_def in_month_def filter_empty_conv
        intro!: month_totals.equality)
qed

text \<open>
  \<^verbatim>\<open>get_monthly_summary\<close> returns, for every ledger, the mapping whose keys are the first
  seven characters of the dates of the ledger, with the sum of the income and the sum of
  the expenses of the transactions whose date starts with the key.
\<close>

theorem monthly_summary_correct:
  "fst (get_monthly_summary self) =
     (\<lambda>mo. if \<exists>t\<in>set (transactions self). take 7 (date t) = mo
           then Some
             \<lparr>income = sum_list (map amount
                 (filter (\<lambda>t. take 7 (date t) = mo \<and> type t = INCOME) (transactions self))),
              expenses = sum_list (map amount
                 (filter (\<lambda>t. take 7 (date t) = mo \<and> type t = EXPENSE) (transactions self)))\<rparr>
           else None)"
  by (auto simp: get_monthly_summary_def summary_loop_eq fun_eq_iff dict_get_def in_month_def
      filter_empty_conv)

text \<open>
  The comment at line 176 calls the key of the summary the year-month. For a date without
  leading zeros it is not: the expense dated \<^verbatim>\<open>2024-3-5\<close> is counted by
  \<^verbatim>\<open>get_category_spending\<close> and \<^verbatim>\<open>calculate_profit_loss\<close> under the month
  \<^verbatim>\<open>2024-03\<close>, and by the summary under the key \<^verbatim>\<open>2024-3-\<close>.
\<close>

lemma short_dated_months:
  "fst (get_category_spending (Some ''2024-03'') short_dated) = Inr [''Food'' \<mapsto> 40]"
  "fst (get_monthly_summary short_dated) = [''2024-3-'' \<mapsto> \<lparr>income = 0, expenses = 40\<rparr>]"
  by (simp_all add: get_category_spending_def get_monthly_summary_def short_dated_def dict_get_def
      strptime_def parse_m_def parse_d_def digit_of_def days_in_month_def is_leap_def
      strftime_Ym_def strftime_Y_def pad4_def pad2_def digit_char_def)

text \<open>
  \<^verbatim>\<open>set_budget_limit\<close> makes the limit the entry of the category and changes no other
  entry. A category that has an entry keeps its place, a new one comes last; categories stay
  distinct, and the transactions stay as they are.
\<close>

theorem set_budget_limit_correct:
  "map_of (budget_limits (set_budget_limit c l self)) = (map_of (budget_limits self))(c \<mapsto> l)
   \<and> map fst (budget_limits (set_budget_limit c l self)) =
       (if c \<in> fst ` set (budget_limits self) then map fst (budget_limits self)
        else map fst (budget_limits self) @ [c])
   \<and> transactions (set_budget_limit c l self) = transactions self
   \<and> (distinct (map fst (budget_limits self)) \<longrightarrow>
        distinct (map fst (budget_limits (set_budget_limit c l self))))"
  by (simp add: set_budget_limit_def save_data_def update_conv' update_keys distinct_update)

theorem set_budget_limit_correct_witness:
  "budget_limits (set_budget_limit ''Food'' 300 demo) =
     [(''Food'', 300), (''Transport'', 50), (''Entertainment'', 200)]
   \<and> distinct (map fst (budget_limits (set_budget_limit ''Food'' 300 demo)))"
proof -
  have "distinct (map fst (budget_limits demo))"
    by (simp add: demo_def)
  with set_budget_limit_correct [of "''Food''" 300 demo]
  have "distinct (map fst (budget_limits (set_budget_limit ''Food'' 300 demo)))"
    by blast
  moreover have "budget_limits (set_budget_limit ''Food'' 300 demo) =
     [(''Food'', 300), (''Transport'', 50), (''Entertainment'', 200)]"
    by (simp add: set_budget_limit_def save_data_def demo_def)
  ultimately show ?thesis by simp
qed


end
